theory Spec2Isabelle
  imports Main
begin

section \<open>JavaScript values\<close>

text \<open>
  Handlers receive untyped data (\<^verbatim>\<open>Record<string, any>\<close>): block parameters, block
  outputs, tool results. They are modelled by a datatype of JavaScript values. Numbers are
  restricted to integers (no NaN, no fractions); strings are lists of code units, of which
  the 8-bit range is represented.
\<close>

datatype js_value =
    JSUndefined
  | JSNull
  | JSBool bool
  | JSNum int
  | JSStr string
  | JSArr "js_value list"
  | JSObj "(string \<times> js_value) list"

datatype js_error =
    JsError string
  | TypeError
  | GatewayError string string string js_value

text \<open>Truthiness, as tested by \<^verbatim>\<open>!x\<close>, \<^verbatim>\<open>x || y\<close> and \<^verbatim>\<open>x ? a : b\<close>.\<close>

fun truthy :: "js_value \<Rightarrow> bool" where
  "truthy JSUndefined = False"
| "truthy JSNull = False"
| "truthy (JSBool b) = b"
| "truthy (JSNum n) = (n \<noteq> 0)"
| "truthy (JSStr s) = (s \<noteq> [])"
| "truthy (JSArr xs) = True"
| "truthy (JSObj kvs) = True"

definition js_or :: "js_value \<Rightarrow> js_value \<Rightarrow> js_value" where
  "js_or a b = (if truthy a then a else b)"

text \<open>
  Property read \<^verbatim>\<open>v.k\<close>: a TypeError on \<^verbatim>\<open>undefined\<close> and \<^verbatim>\<open>null\<close>, the stored value on an
  object that has the key, \<^verbatim>\<open>undefined\<close> otherwise (none of the keys read by this code is a
  built-in property of a primitive or of an array).
\<close>

fun get_prop :: "js_value \<Rightarrow> string \<Rightarrow> js_error + js_value" where
  "get_prop JSUndefined k = Inl TypeError"
| "get_prop JSNull k = Inl TypeError"
| "get_prop (JSObj kvs) k = Inr (case map_of kvs k of None \<Rightarrow> JSUndefined | Some v \<Rightarrow> v)"
| "get_prop v k = Inr JSUndefined"

text \<open>Optional chaining \<^verbatim>\<open>v?.k\<close>: \<^verbatim>\<open>undefined\<close> on \<^verbatim>\<open>undefined\<close> and \<^verbatim>\<open>null\<close>.\<close>

fun get_prop_opt :: "js_value \<Rightarrow> string \<Rightarrow> js_value" where
  "get_prop_opt (JSObj kvs) k = (case map_of kvs k of None \<Rightarrow> JSUndefined | Some v \<Rightarrow> v)"
| "get_prop_opt v k = JSUndefined"

text \<open>Reading a key of a \<^verbatim>\<open>Record<string, any>\<close> held as an association list.\<close>

definition record_get :: "(string \<times> js_value) list \<Rightarrow> string \<Rightarrow> js_value" where
  "record_get kvs k = (case map_of kvs k of None \<Rightarrow> JSUndefined | Some v \<Rightarrow> v)"

text \<open>Object spread followed by one more key: \<^verbatim>\<open>{ ...kvs, k: v }\<close>.\<close>

fun record_set :: "(string \<times> js_value) list \<Rightarrow> string \<Rightarrow> js_value \<Rightarrow> (string \<times> js_value) list" where
  "record_set [] k v = [(k, v)]"
| "record_set ((k', v') # kvs) k v =
     (if k' = k then (k, v) # kvs else (k', v') # record_set kvs k v)"

section \<open>Graph model and execution context\<close>

record block_metadata =
  meta_id :: string
  meta_name :: "string option"
  meta_description :: "string option"

record serialized_block =
  block_id :: string
  metadata :: "block_metadata option"
  config_tool :: string
  config_params :: "(string \<times> js_value) list"
  block_inputs :: "(string \<times> js_value) list"

record connection =
  conn_source :: string
  conn_target :: string

record serialized_workflow =
  blocks :: "serialized_block list"
  connections :: "connection list"

text \<open>
  A block state holds the output of a block that has run; the output is an object
  (\<^verbatim>\<open>Record<string, any>\<close>), held as an association list.
\<close>

record block_state =
  bs_output :: "(string \<times> js_value) list"

record execution_context =
  workflowId :: string
  workspaceId :: "string option"
  workflow :: "serialized_workflow option"
  blockStates :: "string \<rightharpoonup> block_state"

text \<open>\<^verbatim>\<open>block.metadata?.id\<close>, \<^verbatim>\<open>block.metadata?.name\<close>, \<^verbatim>\<open>block.metadata?.description\<close>.\<close>

definition metadata_id :: "serialized_block \<Rightarrow> string option" where
  "metadata_id b = map_option meta_id (metadata b)"

definition metadata_name :: "serialized_block \<Rightarrow> string option" where
  "metadata_name b = Option.bind (metadata b) meta_name"

definition metadata_description :: "serialized_block \<Rightarrow> string option" where
  "metadata_description b = Option.bind (metadata b) meta_description"

text \<open>\<^verbatim>\<open>context.blockStates.get(id)?.output\<close>.\<close>

definition state_output :: "execution_context \<Rightarrow> string \<Rightarrow> js_value" where
  "state_output ctx i =
     (case blockStates ctx i of None \<Rightarrow> JSUndefined | Some st \<Rightarrow> JSObj (bs_output st))"

section \<open>Candidate descriptors of a router (getTargetBlocks)\<close>

record target_block =
  tb_id :: string
  tb_type :: "string option"
  tb_title :: "string option"
  tb_description :: "string option"
  tb_subBlocks :: "(string \<times> js_value) list"
  tb_currentState :: js_value

text \<open>\<^verbatim>\<open>Array.prototype.map\<close> with a callback that may throw: the first throw aborts the call.\<close>

fun map_throwing :: "('a \<Rightarrow> js_error + 'b) \<Rightarrow> 'a list \<Rightarrow> js_error + 'b list" where
  "map_throwing f [] = Inr []"
| "map_throwing f (x # xs) =
     (case f x of
        Inl e \<Rightarrow> Inl e
      | Inr y \<Rightarrow> (case map_throwing f xs of Inl e \<Rightarrow> Inl e | Inr ys \<Rightarrow> Inr (y # ys)))"

text \<open>The set \<^verbatim>\<open>previousBlockIds\<close>: sources of the connections that end in the router.\<close>

definition previousBlockIds :: "serialized_block \<Rightarrow> execution_context \<Rightarrow> string set" where
  "previousBlockIds block ctx =
     (case workflow ctx of
        None \<Rightarrow> {}
      | Some wfl \<Rightarrow> set (map conn_source (filter (\<lambda>conn. conn_target conn = block_id block) (connections wfl))))"

text \<open>
  The system prompt shown for a candidate, read only for blocks whose tag is
  \<^verbatim>\<open>BlockType.AGENT\<close>. The tag is a constant of \<^verbatim>\<open>@/executor/consts\<close>, taken as the
  parameter \<open>agentTag\<close>.
\<close>

definition extract_systemPrompt :: "string \<Rightarrow> serialized_block \<Rightarrow> js_value" where
  "extract_systemPrompt agentTag targetBlock =
     (if metadata_id targetBlock = Some agentTag then
        (let systemPrompt =
               js_or (js_or (record_get (config_params targetBlock) ''systemPrompt'')
                            (record_get (block_inputs targetBlock) ''systemPrompt''))
                     (JSStr [])
         in if \<not> truthy systemPrompt
            then js_or (record_get (block_inputs targetBlock) ''systemPrompt'') (JSStr [])
            else systemPrompt)
      else JSStr [])"

text \<open>The callback of the \<^verbatim>\<open>map\<close>: one descriptor per outgoing connection.\<close>

definition describe_target ::
  "string \<Rightarrow> execution_context \<Rightarrow> serialized_workflow \<Rightarrow> connection \<Rightarrow> js_error + target_block" where
  "describe_target agentTag ctx wfl conn =
     (case find (\<lambda>b. block_id b = conn_target conn) (blocks wfl) of
        None \<Rightarrow> Inl (JsError (''Target block '' @ conn_target conn @ '' not found''))
      | Some targetBlock \<Rightarrow>
          Inr \<lparr> tb_id = block_id targetBlock,
                tb_type = metadata_id targetBlock,
                tb_title = metadata_name targetBlock,
                tb_description = metadata_description targetBlock,
                tb_subBlocks = record_set (config_params targetBlock) ''systemPrompt''
                                 (extract_systemPrompt agentTag targetBlock),
                tb_currentState = state_output ctx (block_id targetBlock) \<rparr>)"

text \<open>
  \<^verbatim>\<open>getTargetBlocks\<close>: \<open>Inr None\<close> is the \<^verbatim>\<open>undefined\<close> returned when the context has no
  workflow; \<open>Inl\<close> is the error thrown for a connection whose target is not a block.
\<close>

definition getTargetBlocks ::
  "string \<Rightarrow> serialized_block \<Rightarrow> execution_context \<Rightarrow> js_error + target_block list option" where
  "getTargetBlocks agentTag block ctx =
     (case workflow ctx of
        None \<Rightarrow> Inr None
      | Some wfl \<Rightarrow>
          (case map_throwing (describe_target agentTag ctx wfl)
                  (filter (\<lambda>conn. conn_source conn = block_id block) (connections wfl)) of
             Inl e \<Rightarrow> Inl e
           | Inr ds \<Rightarrow>
               Inr (Some (filter (\<lambda>targetBlock. tb_id targetBlock \<notin> previousBlockIds block ctx) ds))))"

text \<open>The ids of the descriptor list, when there is one.\<close>

definition descriptor_ids :: "js_error + target_block list option \<Rightarrow> string list option" where
  "descriptor_ids r = (case r of Inr (Some ds) \<Rightarrow> Some (map tb_id ds) | _ \<Rightarrow> None)"

text \<open>Small graphs for the examples: blocks without metadata, a context without block states.\<close>

definition plain_block :: "string \<Rightarrow> serialized_block" where
  "plain_block i = \<lparr> block_id = i, metadata = None, config_tool = [], config_params = [],
                     block_inputs = [] \<rparr>"

definition edge :: "string \<Rightarrow> string \<Rightarrow> connection" where
  "edge s t = \<lparr> conn_source = s, conn_target = t \<rparr>"

definition ctx_of :: "serialized_block list \<Rightarrow> connection list \<Rightarrow> execution_context" where
  "ctx_of bs cs = \<lparr> workflowId = ''w'', workspaceId = None,
                   workflow = Some \<lparr> blocks = bs, connections = cs \<rparr>, blockStates = Map.empty \<rparr>"

text \<open>
  The graph \<open>X \<rightarrow> A\<close>, \<open>A \<rightarrow> B\<close>, \<open>A \<rightarrow> C\<close> with router \<open>A\<close>, and one more connection
  \<open>A \<rightarrow> X\<close> back to the predecessor.
\<close>

definition spec_graph :: execution_context where
  "spec_graph =
     ctx_of [plain_block ''x'', plain_block ''a'', plain_block ''b'', plain_block ''c'']
            [edge ''x'' ''a'', edge ''a'' ''b'', edge ''a'' ''c'', edge ''a'' ''x'']"

text \<open>A router with two connections to the same target.\<close>

definition dup_graph :: execution_context where
  "dup_graph = ctx_of [plain_block ''a'', plain_block ''b''] [edge ''a'' ''b'', edge ''a'' ''b'']"

section \<open>JavaScript strings\<close>

text \<open>
  \<^verbatim>\<open>String.prototype.trim\<close> removes white space and line terminators from both ends. In the
  8-bit range these are the code units 9 to 13, 32 and 160; the class \<^verbatim>\<open>\s\<close> of a regular
  expression is the same set.
\<close>

definition is_js_space :: "char \<Rightarrow> bool" where
  "is_js_space c = (let n = (of_char c :: nat) in (9 \<le> n \<and> n \<le> 13) \<or> n = 32 \<or> n = 160)"

definition js_trim :: "string \<Rightarrow> string" where
  "js_trim s = rev (dropWhile is_js_space (rev (dropWhile is_js_space s)))"

text \<open>
  \<^verbatim>\<open>String.prototype.toLowerCase\<close>: in the 8-bit range, the letters A to Z and the
  letters 192 to 222 other than the multiplication sign 215 move up by 32.
\<close>

definition js_lower_char :: "char \<Rightarrow> char" where
  "js_lower_char c =
     (let n = (of_char c :: nat)
      in if (65 \<le> n \<and> n \<le> 90) \<or> (192 \<le> n \<and> n \<le> 222 \<and> n \<noteq> 215)
         then char_of (n + 32) else c)"

definition js_toLowerCase :: "string \<Rightarrow> string" where
  "js_toLowerCase s = map js_lower_char s"

text \<open>The class \<^verbatim>\<open>\d\<close> of a regular expression without the unicode flag: 0 to 9.\<close>

definition is_js_digit :: "char \<Rightarrow> bool" where
  "is_js_digit c = (let n = (of_char c :: nat) in 48 \<le> n \<and> n \<le> 57)"

text \<open>Decimal notation of an integer, as \<^verbatim>\<open>String(n)\<close> prints it.\<close>

function show_nat :: "nat \<Rightarrow> string" where
  "show_nat n =
     (if n < 10 then [char_of (48 + n)]
      else show_nat (n div 10) @ [char_of (48 + n mod 10)])"
  by pat_completeness auto
termination
  by (relation "measure (\<lambda>n. n)") auto

declare show_nat.simps [simp del]

definition show_int :: "int \<Rightarrow> string" where
  "show_int i = (if i < 0 then CHR ''-'' # show_nat (nat (- i)) else show_nat (nat i))"

text \<open>
  \<^verbatim>\<open>String(v)\<close> and \<^verbatim>\<open>v.toString()\<close> on the values of the model; an array prints its
  elements separated by commas, \<^verbatim>\<open>undefined\<close> and \<^verbatim>\<open>null\<close> elements as the empty string.
\<close>

fun join_comma :: "string list \<Rightarrow> string" where
  "join_comma [] = []"
| "join_comma [s] = s"
| "join_comma (s # t # ss) = s @ '','' @ join_comma (t # ss)"

fun js_toString :: "js_value \<Rightarrow> string" where
  "js_toString JSUndefined = ''undefined''"
| "js_toString JSNull = ''null''"
| "js_toString (JSBool b) = (if b then ''true'' else ''false'')"
| "js_toString (JSNum n) = show_int n"
| "js_toString (JSStr s) = s"
| "js_toString (JSArr xs) =
     join_comma (map (\<lambda>x. if x = JSUndefined \<or> x = JSNull then [] else js_toString x) xs)"
| "js_toString (JSObj kvs) = ''[object Object]''"

text \<open>
  \<^verbatim>\<open>v.trim()\<close> on a value of type \<^verbatim>\<open>any\<close>: only a string has the method; the call is a
  TypeError on every other value.
\<close>

fun js_trim_method :: "js_value \<Rightarrow> js_error + string" where
  "js_trim_method (JSStr s) = Inr (js_trim s)"
| "js_trim_method v = Inl TypeError"

text \<open>\<^verbatim>\<open>s || d\<close> on an optional string: the default for \<^verbatim>\<open>undefined\<close> and for the empty string.\<close>

definition str_or :: "string option \<Rightarrow> string \<Rightarrow> string" where
  "str_or s d = (case s of None \<Rightarrow> d | Some t \<Rightarrow> if t = [] then d else t)"


section \<open>Trigger payload (getVyinChatTriggerPayload)\<close>

text \<open>
  The payload is an object with optional fields, held as an association list; the empty
  list is \<^verbatim>\<open>{}\<close>. The eleven keys of the object literal, in source order:
\<close>

definition payload_fields :: "string list" where
  "payload_fields =
     [''content'', ''api_token'', ''sender_id'', ''app_id'', ''channel_url'', ''bot_user_id'',
      ''bot_uid'', ''bot_nickname'', ''bot_profile_url'', ''bot_character'', ''bot_metadata'']"

text \<open>One entry \<^verbatim>\<open>k: out.k\<close> of the object literal.\<close>

definition project_field :: "js_value \<Rightarrow> string \<Rightarrow> js_error + (string \<times> js_value)" where
  "project_field out k = (case get_prop out k of Inl e \<Rightarrow> Inl e | Inr v \<Rightarrow> Inr (k, v))"

definition getVyinChatTriggerPayload ::
  "execution_context \<Rightarrow> js_error + (string \<times> js_value) list" where
  "getVyinChatTriggerPayload ctx =
     (case workflow ctx of
        None \<Rightarrow> Inr []
      | Some wfl \<Rightarrow>
          (case find (\<lambda>b. metadata_id b = Some ''vyin_chatbot'') (blocks wfl) of
             None \<Rightarrow> Inr []
           | Some vyin \<Rightarrow>
               (let out = state_output ctx (block_id vyin)
                in if \<not> truthy out then Inr []
                   else map_throwing (project_field out) payload_fields)))"

section \<open>The intent router (VyinIntentRouterBlockHandler.execute)\<close>

text \<open>
  What the handler imports from files that are not under \<^verbatim>\<open>src/\<close>, or only hands on to the
  gateway, is a parameter: the tag \<^verbatim>\<open>BlockType.AGENT\<close>, the tool registry \<^verbatim>\<open>getTool\<close>
  (whether a tool of that id exists), the base URL of an application, the text of the
  prompt, and the gateway \<^verbatim>\<open>executeTool\<close> itself, which may answer anything.
\<close>

record tool_params =
  tp_url :: string
  tp_apiToken :: string
  tp_botId :: string
  tp_prompt :: string
  tp_systemPrompt :: string
  tp_workflowId :: string
  tp_workspaceId :: "string option"

record tool_result =
  tr_success :: bool
  tr_output :: js_value
  tr_error :: "string option"

record router_env =
  BlockType_AGENT :: string
  getTool :: "string \<Rightarrow> bool"
  getGimBaseUrl :: "string \<Rightarrow> string"
  generateIntentRouterPrompt ::
    "(js_value \<times> js_value) list \<Rightarrow> string \<Rightarrow> target_block list option \<Rightarrow> string"
  executeTool :: "string \<Rightarrow> tool_params \<Rightarrow> tool_result"

record router_output =
  ro_userInput :: string
  sp_blockId :: string
  sp_blockType :: string
  sp_blockTitle :: string

text \<open>The error thrown at line 117, which the specification calls InvalidRoutingDecision.\<close>

definition InvalidRoutingDecision :: "string \<Rightarrow> js_error" where
  "InvalidRoutingDecision chosenBlockId = JsError (''Invalid routing decision: '' @ chosenBlockId)"

text \<open>The keyword rules read from \<^verbatim>\<open>inputs.intentRoutes\<close> (lines 63 to 68).\<close>

definition intent_routes :: "(string \<times> js_value) list \<Rightarrow> (js_value \<times> js_value) list" where
  "intent_routes inputs =
     (case record_get inputs ''intentRoutes'' of
        JSArr rs \<Rightarrow>
          map (\<lambda>r. (js_or (get_prop_opt r ''routeTo'') (JSStr []),
                    js_or (get_prop_opt r ''keywords'') (JSStr []))) rs
      | _ \<Rightarrow> [])"

text \<open>
  Lines 37 to 78: everything between the candidates and the gateway call. The result is
  the tool id and the parameters of the call, or the error thrown on the way.
\<close>

definition build_request ::
  "router_env \<Rightarrow> serialized_block \<Rightarrow> (string \<times> js_value) list \<Rightarrow> execution_context \<Rightarrow>
   target_block list option \<Rightarrow> js_error + (string \<times> tool_params)" where
  "build_request env block inputs ctx targetBlocks =
     (let toolId = (if config_tool block = [] then ''vyin_bot_assistant'' else config_tool block)
      in if \<not> getTool env toolId then Inl (JsError (''Tool not found: '' @ toolId))
      else
        (case getVyinChatTriggerPayload ctx of
           Inl e \<Rightarrow> Inl e
         | Inr vyin \<Rightarrow>
        (case js_trim_method (js_or (record_get vyin ''app_id'') (JSStr [])) of
           Inl e \<Rightarrow> Inl e
         | Inr appIdFromTrigger \<Rightarrow>
        (case js_trim_method (js_or (record_get vyin ''api_token'') (JSStr [])) of
           Inl e \<Rightarrow> Inl e
         | Inr apiTokenFromTrigger \<Rightarrow>
        (let botProfile = js_trim (js_toString (js_or (record_get inputs ''botProfile'') (JSStr [])));
             userInput = js_toString (js_or (record_get inputs ''userInput'') (JSStr []))
         in if botProfile = [] then Inl (JsError ''Bot profile is required'')
            else if userInput = [] then Inl (JsError ''User input is required'')
            else if appIdFromTrigger = [] then Inl (JsError ''Missing GIM application ID'')
            else if apiTokenFromTrigger = [] then Inl (JsError ''Missing GIM API token'')
            else
              (let baseUrl = getGimBaseUrl env appIdFromTrigger;
                   url = baseUrl @ ''/v1/applications/'' @ appIdFromTrigger @ ''/bots/''
                           @ botProfile @ ''/ask'';
                   systemPrompt =
                     generateIntentRouterPrompt env (intent_routes inputs) userInput targetBlocks
               in Inr (toolId,
                       \<lparr> tp_url = url, tp_apiToken = apiTokenFromTrigger, tp_botId = botProfile,
                         tp_prompt = systemPrompt, tp_systemPrompt = systemPrompt,
                         tp_workflowId = workflowId ctx,
                         tp_workspaceId = workspaceId ctx \<rparr>)))))))"

text \<open>The response text of a gateway result, normalised (line 107).\<close>

definition response_text :: "tool_result \<Rightarrow> string" where
  "response_text result =
     js_toLowerCase (js_trim (js_toString
       (js_or (get_prop_opt (tr_output result) ''response'') (JSStr []))))"

text \<open>Lines 97 to 128: the decision taken on the gateway's result.\<close>

definition select_path ::
  "serialized_block \<Rightarrow> (string \<times> js_value) list \<Rightarrow> target_block list option \<Rightarrow> tool_result \<Rightarrow>
   js_error + router_output" where
  "select_path block inputs targetBlocks result =
     (if \<not> tr_success result
      then Inl (GatewayError (str_or (tr_error result) ''vyin_bot_assistant failed'')
                  (block_id block) (str_or (metadata_name block) ''Intent Router'')
                  (js_or (tr_output result) (JSObj [])))
      else
        (let chosenBlockId = response_text result;
             chosenBlock =
               (case targetBlocks of
                  None \<Rightarrow> None
                | Some tbs \<Rightarrow> find (\<lambda>b. tb_id b = chosenBlockId) tbs)
         in case chosenBlock of
              None \<Rightarrow> Inl (InvalidRoutingDecision chosenBlockId)
            | Some cb \<Rightarrow>
                Inr \<lparr> ro_userInput = js_toString (js_or (record_get inputs ''userInput'') (JSStr [])),
                      sp_blockId = tb_id cb,
                      sp_blockType = str_or (tb_type cb) ''unknown'',
                      sp_blockTitle = str_or (tb_title cb) ''Untitled Block'' \<rparr>))"

text \<open>
  \<^verbatim>\<open>execute\<close>: the candidates, the request, one call of the gateway, the decision. The
  \<^verbatim>\<open>catch\<close> block logs and rethrows, so every error leaves the handler unchanged.
\<close>

definition execute ::
  "router_env \<Rightarrow> serialized_block \<Rightarrow> (string \<times> js_value) list \<Rightarrow> execution_context \<Rightarrow>
   js_error + router_output" where
  "execute env block inputs ctx =
     (case getTargetBlocks (BlockType_AGENT env) block ctx of
        Inl e \<Rightarrow> Inl e
      | Inr targetBlocks \<Rightarrow>
          (case build_request env block inputs ctx targetBlocks of
             Inl e \<Rightarrow> Inl e
           | Inr (toolId, params) \<Rightarrow>
               select_path block inputs targetBlocks (executeTool env toolId params)))"

text \<open>
  An example run: a workflow with the chat trigger \<open>t\<close>, whose output carries the credentials,
  the router \<open>a\<close>, and two candidates, \<open>abc\<close> with an empty title and \<open>def\<close>; a gateway
  that answers every call with the given text.
\<close>

definition trigger_block :: serialized_block where
  "trigger_block =
     \<lparr> block_id = ''t'',
       metadata = Some \<lparr> meta_id = ''vyin_chatbot'', meta_name = Some ''Chat'',
                         meta_description = None \<rparr>,
       config_tool = [], config_params = [], block_inputs = [] \<rparr>"

definition titled_block :: "string \<Rightarrow> string \<Rightarrow> string \<Rightarrow> serialized_block" where
  "titled_block i ty title =
     \<lparr> block_id = i,
       metadata = Some \<lparr> meta_id = ty, meta_name = Some title, meta_description = None \<rparr>,
       config_tool = [], config_params = [], block_inputs = [] \<rparr>"

definition trigger_output :: "(string \<times> js_value) list" where
  "trigger_output =
     [(''content'', JSStr ''hello''), (''app_id'', JSStr ''app1''),
      (''api_token'', JSStr ''secret'')]"

definition run_ctx :: "connection list \<Rightarrow> execution_context" where
  "run_ctx cs =
     \<lparr> workflowId = ''w'', workspaceId = None,
       workflow = Some \<lparr> blocks = [trigger_block, plain_block ''a'',
                                    titled_block ''abc'' ''agent'' [],
                                    titled_block ''def'' ''agent'' ''Billing''],
                          connections = cs \<rparr>,
       blockStates = [''t'' \<mapsto> \<lparr> bs_output = trigger_output \<rparr>] \<rparr>"

definition answering_env :: "string \<Rightarrow> router_env" where
  "answering_env text =
     \<lparr> BlockType_AGENT = ''agent'',
       getTool = (\<lambda>toolId. True),
       getGimBaseUrl = (\<lambda>appId. ''https://gim.example''),
       generateIntentRouterPrompt = (\<lambda>routes userInput targetBlocks. userInput),
       executeTool = (\<lambda>toolId params.
         \<lparr> tr_success = True, tr_output = JSObj [(''response'', JSStr text)],
           tr_error = None \<rparr>) \<rparr>"

definition run_inputs :: "(string \<times> js_value) list" where
  "run_inputs = [(''botProfile'', JSStr ''bot7''), (''userInput'', JSStr ''refund please'')]"

text \<open>
  The connections of the example: the trigger leads to the router, and the router to both
  candidates; and a second wiring in which the router only leads back to its predecessor.
\<close>

definition example_routes :: "connection list" where
  "example_routes = [edge ''t'' ''a'', edge ''a'' ''abc'', edge ''a'' ''def'']"

definition back_routes :: "connection list" where
  "back_routes = [edge ''t'' ''a'', edge ''a'' ''t'']"

definition example_candidates :: "target_block list" where
  "example_candidates =
     [\<lparr> tb_id = ''abc'', tb_type = Some ''agent'', tb_title = Some [], tb_description = None,
        tb_subBlocks = [(''systemPrompt'', JSStr [])], tb_currentState = JSUndefined \<rparr>,
      \<lparr> tb_id = ''def'', tb_type = Some ''agent'', tb_title = Some ''Billing'',
        tb_description = None, tb_subBlocks = [(''systemPrompt'', JSStr [])],
        tb_currentState = JSUndefined \<rparr>]"

definition example_params :: tool_params where
  "example_params =
     \<lparr> tp_url = ''https://gim.example/v1/applications/app1/bots/bot7/ask'',
       tp_apiToken = ''secret'', tp_botId = ''bot7'', tp_prompt = ''refund please'',
       tp_systemPrompt = ''refund please'', tp_workflowId = ''w'', tp_workspaceId = None \<rparr>"


section \<open>Deployment version store\<close>

text \<open>
  The two tables the routes write. The schema (\<^verbatim>\<open>@sim/db\<close>) is not under \<^verbatim>\<open>src/\<close>; the rows
  carry the columns the routes name and those the specification lists. Times are
  milliseconds.
\<close>

record deployment_version =
  dv_id :: string
  dv_workflowId :: string
  dv_version :: int
  dv_name :: "string option"
  dv_state :: js_value
  dv_isActive :: bool
  dv_createdBy :: "string option"
  dv_createdAt :: nat

record workflow_row =
  wf_id :: string
  wf_isDeployed :: bool
  wf_deployedAt :: "nat option"

record database =
  workflowDeploymentVersion :: "deployment_version list"
  workflowTable :: "workflow_row list"

text \<open>
  \<^verbatim>\<open>UPDATE t SET ... WHERE cond\<close>: every row that satisfies the condition is rewritten, the
  others stay; \<^verbatim>\<open>RETURNING\<close> gives the rewritten rows.
\<close>

definition sql_update :: "('r \<Rightarrow> bool) \<Rightarrow> ('r \<Rightarrow> 'r) \<Rightarrow> 'r list \<Rightarrow> 'r list" where
  "sql_update cond upd rows = map (\<lambda>r. if cond r then upd r else r) rows"

definition sql_returning :: "('r \<Rightarrow> bool) \<Rightarrow> ('r \<Rightarrow> 'r) \<Rightarrow> 'r list \<Rightarrow> 'r list" where
  "sql_returning cond upd rows = map upd (filter cond rows)"

text \<open>
  \<^verbatim>\<open>db.transaction(callback)\<close>: the callback runs on the database and leaves a state and
  either a value or a thrown error; a throw rolls every write of the callback back and is
  thrown on.
\<close>

definition transaction ::
  "(database \<Rightarrow> (js_error + 'a) \<times> database) \<Rightarrow> database \<Rightarrow> (js_error + 'a) \<times> database" where
  "transaction callback db =
     (case callback db of
        (Inl e, db') \<Rightarrow> (Inl e, db)
      | (Inr x, db') \<Rightarrow> (Inr x, db'))"

text \<open>
  The value of \<^verbatim>\<open>Number(version)\<close> for the path parameter: not finite (\<^verbatim>\<open>NaN\<close>, an
  infinity), or a finite number, of which the integers are represented.
\<close>

datatype js_number = NotFinite | Finite int

text \<open>
  Modelled from the spec: \<^verbatim>\<open>createErrorResponse\<close> and \<^verbatim>\<open>createSuccessResponse\<close> of
  \<^verbatim>\<open>@/app/api/workflows/utils\<close> are not under \<^verbatim>\<open>src/\<close>. An error response carries the given
  message and the given status; a success response carries the data with status 200, as in
  the table of the deployment HTTP surface.
\<close>

datatype response_body =
    ErrorBody string
  | ActivateBody bool nat
  | RenameBody "string option"

record http_response =
  status :: nat
  body :: response_body

definition createErrorResponse :: "string \<Rightarrow> nat \<Rightarrow> http_response" where
  "createErrorResponse message code = \<lparr> status = code, body = ErrorBody message \<rparr>"

definition createSuccessResponse :: "response_body \<Rightarrow> http_response" where
  "createSuccessResponse data = \<lparr> status = 200, body = data \<rparr>"

text \<open>\<^verbatim>\<open>NextResponse.json({ error }, { status })\<close>.\<close>

definition json_error :: "string \<Rightarrow> nat \<Rightarrow> http_response" where
  "json_error message code = \<lparr> status = code, body = ErrorBody message \<rparr>"

text \<open>\<^verbatim>\<open>error.message\<close> of a thrown error.\<close>

fun error_message :: "js_error \<Rightarrow> string" where
  "error_message (JsError m) = m"
| "error_message TypeError = ''TypeError''"
| "error_message (GatewayError m blockId blockName out) = m"

text \<open>
  Authentication and access control are external: \<^verbatim>\<open>authenticateApiKeyFromHeader\<close> and
  \<^verbatim>\<open>getWorkflowAccessContext\<close> are parameters of the routes.
\<close>

record auth_result =
  auth_success :: bool
  auth_userId :: "string option"

record access_context =
  isOwner :: bool
  workspacePermission :: "string option"

record route_env =
  authenticateApiKeyFromHeader :: "string \<Rightarrow> auth_result"
  getWorkflowAccessContext :: "string \<Rightarrow> string \<Rightarrow> access_context option"

text \<open>
  A request to a deployment route: the API key header, the path parameters \<^verbatim>\<open>id\<close> and
  \<^verbatim>\<open>version\<close> (the latter through \<^verbatim>\<open>Number\<close>), and the outcome of \<^verbatim>\<open>request.json()\<close>, a
  thrown error or the parsed body.
\<close>

record deployment_request =
  rq_apiKeyHeader :: "string option"
  rq_id :: string
  rq_versionNum :: js_number
  rq_json :: "js_error + js_value"

subsection \<open>Activation (POST .../deployments/[version]/activate)\<close>

text \<open>
  The callback of the transaction (lines 40 to 70), statement by statement. The second
  component is the state the callback leaves, also when it throws.
\<close>

definition activate_callback ::
  "string \<Rightarrow> int \<Rightarrow> nat \<Rightarrow> database \<Rightarrow> (js_error + unit) \<times> database" where
  "activate_callback wid versionNum now db =
     (let db1 = db \<lparr> workflowDeploymentVersion :=
                  sql_update (\<lambda>r. dv_workflowId r = wid \<and> dv_isActive r = True)
                    (\<lambda>r. r \<lparr> dv_isActive := False \<rparr>) (workflowDeploymentVersion db) \<rparr>;
          updated = map dv_id
                  (sql_returning (\<lambda>r. dv_workflowId r = wid \<and> dv_version r = versionNum)
                    (\<lambda>r. r \<lparr> dv_isActive := True \<rparr>) (workflowDeploymentVersion db1));
          db2 = db1 \<lparr> workflowDeploymentVersion :=
                  sql_update (\<lambda>r. dv_workflowId r = wid \<and> dv_version r = versionNum)
                    (\<lambda>r. r \<lparr> dv_isActive := True \<rparr>) (workflowDeploymentVersion db1) \<rparr>
      in if length updated = 0 then (Inl (JsError ''Deployment version not found''), db2)
         else (Inr (),
               db2 \<lparr> workflowTable :=
                  sql_update (\<lambda>w. wf_id w = wid)
                    (\<lambda>w. w \<lparr> wf_isDeployed := True, wf_deployedAt := Some now \<rparr>)
                    (workflowTable db2) \<rparr>))"

text \<open>The route handler. \<open>now\<close> is the value of \<^verbatim>\<open>new Date()\<close> at line 38.\<close>

definition POST_activate ::
  "route_env \<Rightarrow> deployment_request \<Rightarrow> nat \<Rightarrow> database \<Rightarrow> http_response \<times> database" where
  "POST_activate env rq now db =
     (case rq_apiKeyHeader rq of
        None \<Rightarrow> (json_error ''API key required'' 401, db)
      | Some apiKeyHeader \<Rightarrow>
          if apiKeyHeader = [] then (json_error ''API key required'' 401, db)
          else
            (let auth = authenticateApiKeyFromHeader env apiKeyHeader
             in if \<not> auth_success auth \<or> auth_userId auth = None \<or> auth_userId auth = Some []
                then (json_error ''Unauthorized'' 401, db)
                else
                  (case rq_versionNum rq of
                     NotFinite \<Rightarrow> (createErrorResponse ''Invalid version'' 400, db)
                   | Finite versionNum \<Rightarrow>
                       (case transaction (activate_callback (rq_id rq) versionNum now) db of
                          (Inl error, db') \<Rightarrow>
                            (createErrorResponse
                               (if error_message error = [] then ''Failed to activate deployment''
                                else error_message error) 500, db')
                        | (Inr u, db') \<Rightarrow>
                            (createSuccessResponse (ActivateBody True now), db')))))"

subsection \<open>Renaming (PATCH .../deployments/[version])\<close>



text \<open>
  An example database: workflow \<open>W\<close> with versions 3 (active) and 5, workflow \<open>V\<close> with
  its version 1 active; an environment that accepts the key \<open>k1\<close> of the owner \<open>u1\<close>.
\<close>

definition version_row :: "string \<Rightarrow> string \<Rightarrow> int \<Rightarrow> bool \<Rightarrow> deployment_version" where
  "version_row i wid v active =
     \<lparr> dv_id = i, dv_workflowId = wid, dv_version = v, dv_name = None, dv_state = JSObj [],
       dv_isActive = active, dv_createdBy = None, dv_createdAt = 0 \<rparr>"

definition example_db :: database where
  "example_db =
     \<lparr> workflowDeploymentVersion =
         [version_row ''r1'' ''W'' 3 True, version_row ''r2'' ''W'' 5 False,
          version_row ''r3'' ''V'' 1 True],
       workflowTable =
         [\<lparr> wf_id = ''W'', wf_isDeployed = True, wf_deployedAt = Some 1000 \<rparr>,
          \<lparr> wf_id = ''V'', wf_isDeployed = True, wf_deployedAt = Some 2000 \<rparr>] \<rparr>"

definition example_env :: route_env where
  "example_env =
     \<lparr> authenticateApiKeyFromHeader =
         (\<lambda>k. if k = ''k1'' then \<lparr> auth_success = True, auth_userId = Some ''u1'' \<rparr>
              else \<lparr> auth_success = False, auth_userId = None \<rparr>),
       getWorkflowAccessContext =
         (\<lambda>wid uid. if uid = ''u1'' then Some \<lparr> isOwner = True, workspacePermission = None \<rparr>
                    else None) \<rparr>"

definition example_request :: "int \<Rightarrow> js_value \<Rightarrow> deployment_request" where
  "example_request v json =
     \<lparr> rq_apiKeyHeader = Some ''k1'', rq_id = ''W'', rq_versionNum = Finite v,
       rq_json = Inr json \<rparr>"

text \<open>The rows of a workflow that are active.\<close>

definition active_rows :: "database \<Rightarrow> string \<Rightarrow> deployment_version list" where
  "active_rows db wid =
     filter (\<lambda>r. dv_workflowId r = wid \<and> dv_isActive r) (workflowDeploymentVersion db)"

text \<open>The request carries an API key that the authentication accepts for some user.\<close>

definition authenticated :: "route_env \<Rightarrow> deployment_request \<Rightarrow> bool" where
  "authenticated env rq =
     (case rq_apiKeyHeader rq of
        None \<Rightarrow> False
      | Some k \<Rightarrow>
          k \<noteq> [] \<and> auth_success (authenticateApiKeyFromHeader env k)
          \<and> auth_userId (authenticateApiKeyFromHeader env k) \<noteq> None
          \<and> auth_userId (authenticateApiKeyFromHeader env k) \<noteq> Some [])"






section \<open>One-time codes (embed-session)\<close>

text \<open>
  \<^verbatim>\<open>JSON.stringify\<close> and \<^verbatim>\<open>JSON.parse\<close> are parameters: the text of a payload, and the
  payload of a text, \<open>None\<close> when \<^verbatim>\<open>JSON.parse\<close> throws.
\<close>

record 'p json_codec =
  stringify :: "'p \<Rightarrow> string"
  parse :: "string \<Rightarrow> 'p option"

text \<open>
  The two stores. The in-memory map holds the text and the time of expiry in milliseconds.
  Redis is external; the three commands the code uses are modelled on a map from keys to
  a text and its deadline: \<^verbatim>\<open>SET key value EX ttl\<close> refuses a time to live of zero and
  otherwise sets the deadline \<open>ttl\<close> seconds ahead, \<^verbatim>\<open>GET\<close> gives the text of a key
  whose deadline has not come, \<^verbatim>\<open>DEL\<close> removes the key.
\<close>

record mem_entry =
  me_value :: string
  me_expiry :: nat

type_synonym redis_db = "string \<rightharpoonup> (string \<times> nat)"

record code_store =
  redisClient :: "redis_db option"
  inMemoryCodes :: "string \<rightharpoonup> mem_entry"

definition CODE_PREFIX :: string where
  "CODE_PREFIX = ''embed-code:''"

definition CODE_TTL_SECONDS :: nat where
  "CODE_TTL_SECONDS = 120"

definition redis_set_ex :: "redis_db \<Rightarrow> string \<Rightarrow> string \<Rightarrow> nat \<Rightarrow> nat \<Rightarrow> js_error + redis_db" where
  "redis_set_ex rdb key val ttlSeconds now =
     (if ttlSeconds = 0 then Inl (JsError ''ERR invalid expire time in set command'')
      else Inr (rdb(key \<mapsto> (val, now + ttlSeconds * 1000))))"

definition redis_get :: "redis_db \<Rightarrow> string \<Rightarrow> nat \<Rightarrow> string option" where
  "redis_get rdb key now =
     (case rdb key of
        None \<Rightarrow> None
      | Some (val, deadline) \<Rightarrow> if deadline \<le> now then None else Some val)"

definition redis_del :: "redis_db \<Rightarrow> string \<Rightarrow> redis_db" where
  "redis_del rdb key = rdb(key := None)"

text \<open>\<^verbatim>\<open>storeCode\<close>; \<open>now\<close> is the value of \<^verbatim>\<open>Date.now()\<close>.\<close>

definition storeCode ::
  "'p json_codec \<Rightarrow> string \<Rightarrow> 'p \<Rightarrow> nat \<Rightarrow> nat \<Rightarrow> code_store \<Rightarrow> js_error + code_store" where
  "storeCode codec code payload ttlSeconds now st =
     (let key = CODE_PREFIX @ code;
          val = stringify codec payload
      in case redisClient st of
           Some rdb \<Rightarrow>
             (case redis_set_ex rdb key val ttlSeconds now of
                Inl e \<Rightarrow> Inl e
              | Inr rdb' \<Rightarrow> Inr (st \<lparr> redisClient := Some rdb' \<rparr>))
         | None \<Rightarrow>
             Inr (st \<lparr> inMemoryCodes := (inMemoryCodes st)
                    (key \<mapsto> \<lparr> me_value = val, me_expiry = now + ttlSeconds * 1000 \<rparr>) \<rparr>))"

text \<open>\<^verbatim>\<open>consumeCode\<close>: the payload or \<^verbatim>\<open>null\<close> (\<open>None\<close>), and the store it leaves.\<close>

definition consumeCode ::
  "'p json_codec \<Rightarrow> string \<Rightarrow> nat \<Rightarrow> code_store \<Rightarrow> 'p option \<times> code_store" where
  "consumeCode codec code now st =
     (let key = CODE_PREFIX @ code
      in case redisClient st of
           Some rdb \<Rightarrow>
             (case redis_get rdb key now of
                None \<Rightarrow> (None, st)
              | Some val \<Rightarrow>
                  if val = [] then (None, st)
                  else (parse codec val, st \<lparr> redisClient := Some (redis_del rdb key) \<rparr>))
         | None \<Rightarrow>
             (case inMemoryCodes st key of
                None \<Rightarrow> (None, st)
              | Some entry \<Rightarrow>
                  (let st' = st \<lparr> inMemoryCodes := (inMemoryCodes st)(key := None) \<rparr>
                   in if me_expiry entry < now then (None, st')
                      else (parse codec (me_value entry), st'))))"

text \<open>
  Calls of the two functions in sequence. A \<^verbatim>\<open>storeCode\<close> that throws leaves the store as
  it is.
\<close>

datatype 'p code_op =
    Store string 'p nat nat
  | Consume string nat

fun op_code :: "'p code_op \<Rightarrow> string" where
  "op_code (Store code payload ttlSeconds now) = code"
| "op_code (Consume code now) = code"

fun stores :: "'p code_op \<Rightarrow> string \<Rightarrow> bool" where
  "stores (Store code payload ttlSeconds now) c = (code = c)"
| "stores (Consume code now) c = False"

fun run_op :: "'p json_codec \<Rightarrow> 'p code_op \<Rightarrow> code_store \<Rightarrow> code_store" where
  "run_op codec (Store code payload ttlSeconds now) st =
     (case storeCode codec code payload ttlSeconds now st of Inl e \<Rightarrow> st | Inr st' \<Rightarrow> st')"
| "run_op codec (Consume code now) st = snd (consumeCode codec code now st)"

fun run_ops :: "'p json_codec \<Rightarrow> 'p code_op list \<Rightarrow> code_store \<Rightarrow> code_store" where
  "run_ops codec [] st = st"
| "run_ops codec (op # ops) st = run_ops codec ops (run_op codec op st)"

text \<open>The entry of a code in the store that is in use: its text and its time of expiry.\<close>

definition code_entry :: "code_store \<Rightarrow> string \<Rightarrow> (string \<times> nat) option" where
  "code_entry st code =
     (case redisClient st of
        Some rdb \<Rightarrow> rdb (CODE_PREFIX @ code)
      | None \<Rightarrow> map_option (\<lambda>e. (me_value e, me_expiry e)) (inMemoryCodes st (CODE_PREFIX @ code)))"

text \<open>
  An example codec on texts: a payload is written between two marks and read back by
  removing them; a text without the marks does not parse. Two empty stores, without and
  with Redis.
\<close>

definition text_codec :: "string json_codec" where
  "text_codec =
     \<lparr> stringify = (\<lambda>p. CHR ''<'' # p @ ''>''),
       parse = (\<lambda>s. case s of
                  [] \<Rightarrow> None
                | c # cs \<Rightarrow> if c = CHR ''<'' \<and> cs \<noteq> [] \<and> last cs = CHR ''>''
                            then Some (butlast cs) else None) \<rparr>"

definition memory_store :: code_store where
  "memory_store = \<lparr> redisClient = None, inMemoryCodes = Map.empty \<rparr>"

definition redis_store :: code_store where
  "redis_store = \<lparr> redisClient = Some Map.empty, inMemoryCodes = Map.empty \<rparr>"

text \<open>
  An example session: the code \<open>c1\<close> is stored at time 1000 with the standard time to
  live; then another code is stored; later, after the first use of \<open>c1\<close>, it is tried
  again and a third code is stored.
\<close>

definition stored_c1 :: "code_store \<Rightarrow> code_store" where
  "stored_c1 st = run_op text_codec (Store ''c1'' ''hello'' CODE_TTL_SECONDS 1000) st"

definition ops_before :: "string code_op list" where
  "ops_before = [Store ''c2'' ''other'' CODE_TTL_SECONDS 1500, Consume ''c3'' 1600]"

definition ops_after :: "string code_op list" where
  "ops_after = [Consume ''c1'' 6000, Store ''c4'' ''more'' CODE_TTL_SECONDS 6500]"


section \<open>Bot list: quoting identifiers before JSON.parse\<close>

text \<open>
  Lines 93 to 96 of the bot-list route rewrite the text of the response with two global
  regular-expression replacements before \<^verbatim>\<open>JSON.parse\<close> reads it. The double quote is the
  character 34.
\<close>

definition dq :: char where
  "dq = CHR 0x22"

definition quoted :: "string \<Rightarrow> string" where
  "quoted s = dq # s @ [dq]"

fun strip_prefix :: "string \<Rightarrow> string \<Rightarrow> string option" where
  "strip_prefix [] s = Some s"
| "strip_prefix (p # ps) [] = None"
| "strip_prefix (p # ps) (c # cs) = (if p = c then strip_prefix ps cs else None)"

text \<open>
  One attempt to match \<^verbatim>\<open>/"key":\s*(\d+)/\<close> at the start of a text: the literal, then the
  longest run of white space, then the longest run of digits, which must not be empty. The
  result is the captured digits and the text after the match.
\<close>

definition match_id :: "string \<Rightarrow> string \<Rightarrow> (string \<times> string) option" where
  "match_id key s =
     (case strip_prefix (quoted key @ '':'') s of
        None \<Rightarrow> None
      | Some rest \<Rightarrow>
          (let afterSpace = dropWhile is_js_space rest;
               digits = takeWhile is_js_digit afterSpace
           in if digits = [] then None
              else Some (digits, dropWhile is_js_digit afterSpace)))"

text \<open>
  \<^verbatim>\<open>text.replace(/"key":\s*(\d+)/g, '"key":"$1"')\<close>: from left to right, every match is
  replaced and the search goes on after it; a character at which nothing matches is kept.
\<close>

function replace_ids :: "string \<Rightarrow> string \<Rightarrow> string" where
  "replace_ids key [] = []"
| "replace_ids key (c # cs) =
     (case match_id key (c # cs) of
        Some (digits, rest) \<Rightarrow> quoted key @ '':'' @ quoted digits @ replace_ids key rest
      | None \<Rightarrow> c # replace_ids key cs)"
  by pat_completeness auto
termination
proof (relation "measure (\<lambda>(key, s). length s)")
  show "wf (measure (\<lambda>(key, s). length s))"
    by simp
next
  fix key :: string and c :: char and cs :: string
  show "((key, cs), (key, c # cs)) \<in> measure (\<lambda>(key, s). length s)"
    by simp
next
  fix key :: string and c :: char and cs :: string and x2 :: "string \<times> string"
    and digits rest :: string
  assume m: "match_id key (c # cs) = Some x2" and x: "(digits, rest) = x2"
  have sp: "strip_prefix p s = Some r \<Longrightarrow> length r < length s \<or> p = []" for p s r
    by (induction p s rule: strip_prefix.induct) (auto split: if_splits)
  from m x obtain r where r: "strip_prefix (quoted key @ '':'') (c # cs) = Some r"
    and rest: "rest = dropWhile is_js_digit (dropWhile is_js_space r)"
    by (auto simp: match_id_def Let_def split: option.splits if_splits)
  from sp [OF r] have "length r < length (c # cs)"
    by (simp add: quoted_def)
  moreover have "length rest \<le> length r"
    unfolding rest
    by (meson le_trans length_dropWhile_le)
  ultimately show "((key, rest), (key, c # cs)) \<in> measure (\<lambda>(key, s). length s)"
    by simp
qed

text \<open>The two replacements of the route, \<^verbatim>\<open>bot_id\<close> first.\<close>

definition fixResponseText :: "string \<Rightarrow> string" where
  "fixResponseText responseText =
     replace_ids ''license_id'' (replace_ids ''bot_id'' responseText)"

text \<open>
  Two response bodies with an identifier above \<^verbatim>\<open>Number.MAX_SAFE_INTEGER\<close>: one written
  in the compact way, one with a space on both sides of the colon.
\<close>

definition compact_body :: string where
  "compact_body =
     ''{'' @ quoted ''results'' @ '':[{'' @ quoted ''bot_id'' @ '': 9007199254740993,''
       @ quoted ''license_id'' @ '':12}]}''"

definition spaced_body :: string where
  "spaced_body =
     ''{'' @ quoted ''results'' @ '' : [{'' @ quoted ''bot_id'' @ '' : 9007199254740993}]}''"


section \<open>Properties of the candidate descriptors\<close>

lemma describe_target_id:
  "describe_target agentTag ctx wfl conn = Inr d \<Longrightarrow> tb_id d = conn_target conn"
  by (auto simp: describe_target_def find_Some_iff split: option.splits)

lemma describe_target_total:
  "conn_target conn \<in> block_id ` set (blocks wfl) \<Longrightarrow>
   \<exists>d. describe_target agentTag ctx wfl conn = Inr d"
  by (auto simp: describe_target_def find_None_iff split: option.splits)

lemma map_throwing_ids:
  "map_throwing (describe_target agentTag ctx wfl) cs = Inr ds \<Longrightarrow>
   map tb_id ds = map conn_target cs"
proof (induction cs arbitrary: ds)
  case Nil
  then show ?case by simp
next
  case (Cons c cs)
  then show ?case
    by (auto split: sum.splits dest: describe_target_id)
qed

lemma map_throwing_total:
  "\<forall>c \<in> set cs. \<exists>y. f c = Inr y \<Longrightarrow> \<exists>ys. map_throwing f cs = Inr ys"
  by (induction cs) (auto split: sum.splits)

lemmas graph_example_defs =
  spec_graph_def dup_graph_def descriptor_ids_def getTargetBlocks_def ctx_of_def plain_block_def
  edge_def describe_target_def previousBlockIds_def metadata_id_def metadata_name_def
  metadata_description_def extract_systemPrompt_def state_output_def

text \<open>
  C1 (as the code has it). With a workflow in the context, \<^verbatim>\<open>getTargetBlocks\<close> returns a
  descriptor list whenever every outgoing connection of the router ends in a block of the
  workflow; and whenever it returns a list, the ids of the descriptors are the targets of
  the router's outgoing connections, in connection order and one per connection, without
  those that are the source of a connection into the router. As a set, the candidates are
  the targets of the outgoing connections minus the direct predecessors. Nothing collapses
  repeated targets.
\<close>

theorem getTargetBlocks_candidates:
  assumes wfl: "workflow ctx = Some wfl"
  shows "((\<forall>conn \<in> set (connections wfl). conn_source conn = block_id block \<longrightarrow>
             conn_target conn \<in> block_id ` set (blocks wfl)) \<longrightarrow>
          (\<exists>ds. getTargetBlocks agentTag block ctx = Inr (Some ds)))
       \<and> (\<forall>ds. getTargetBlocks agentTag block ctx = Inr (Some ds) \<longrightarrow>
             map tb_id ds =
               filter (\<lambda>t. t \<notin> previousBlockIds block ctx)
                 (map conn_target
                    (filter (\<lambda>conn. conn_source conn = block_id block) (connections wfl)))
           \<and> set (map tb_id ds) =
               {t. \<exists>conn \<in> set (connections wfl).
                     conn_source conn = block_id block \<and> conn_target conn = t}
               - {s. \<exists>conn \<in> set (connections wfl).
                       conn_target conn = block_id block \<and> conn_source conn = s})"
proof (intro conjI impI allI)
  assume closed: "\<forall>conn \<in> set (connections wfl). conn_source conn = block_id block \<longrightarrow>
             conn_target conn \<in> block_id ` set (blocks wfl)"
  have "\<forall>c \<in> set (filter (\<lambda>conn. conn_source conn = block_id block) (connections wfl)).
          \<exists>d. describe_target agentTag ctx wfl c = Inr d"
    using closed describe_target_total by auto
  from map_throwing_total [OF this]
  show "\<exists>ds. getTargetBlocks agentTag block ctx = Inr (Some ds)"
    by (auto simp: getTargetBlocks_def wfl)
next
  fix ds
  assume r: "getTargetBlocks agentTag block ctx = Inr (Some ds)"
  then obtain ds0 where
    m: "map_throwing (describe_target agentTag ctx wfl)
          (filter (\<lambda>conn. conn_source conn = block_id block) (connections wfl)) = Inr ds0"
    and ds: "ds = filter (\<lambda>targetBlock. tb_id targetBlock \<notin> previousBlockIds block ctx) ds0"
    by (auto simp: getTargetBlocks_def wfl split: sum.splits)
  have "map tb_id ds = filter (\<lambda>t. t \<notin> previousBlockIds block ctx) (map tb_id ds0)"
    by (simp add: ds filter_map comp_def)
  then show ids: "map tb_id ds =
      filter (\<lambda>t. t \<notin> previousBlockIds block ctx)
        (map conn_target (filter (\<lambda>conn. conn_source conn = block_id block) (connections wfl)))"
    by (simp add: map_throwing_ids [OF m])
  have "set (map tb_id ds) = set (filter (\<lambda>t. t \<notin> previousBlockIds block ctx)
        (map conn_target (filter (\<lambda>conn. conn_source conn = block_id block) (connections wfl))))"
    by (simp only: ids)
  also have "\<dots> =
      {t. \<exists>conn \<in> set (connections wfl). conn_source conn = block_id block \<and> conn_target conn = t}
      - {s. \<exists>conn \<in> set (connections wfl). conn_target conn = block_id block \<and> conn_source conn = s}"
    unfolding previousBlockIds_def wfl option.case set_filter set_map by blast
  finally show "set (map tb_id ds) =
      {t. \<exists>conn \<in> set (connections wfl). conn_source conn = block_id block \<and> conn_target conn = t}
      - {s. \<exists>conn \<in> set (connections wfl). conn_target conn = block_id block \<and> conn_source conn = s}"
    .
qed

text \<open>
  The theorem at the graph \<open>X \<rightarrow> A\<close>, \<open>A \<rightarrow> B\<close>, \<open>A \<rightarrow> C\<close>, \<open>A \<rightarrow> X\<close>: the workflow is
  present and the candidates of \<open>A\<close> are \<open>B\<close> and \<open>C\<close>.
\<close>

theorem getTargetBlocks_candidates_witness:
  "workflow spec_graph = Some (the (workflow spec_graph))
   \<and> descriptor_ids (getTargetBlocks ''agent'' (plain_block ''a'') spec_graph)
       = Some [''b'', ''c'']
   \<and> {t. \<exists>conn \<in> set (connections (the (workflow spec_graph))).
            conn_source conn = ''a'' \<and> conn_target conn = t}
     - {s. \<exists>conn \<in> set (connections (the (workflow spec_graph))).
            conn_target conn = ''a'' \<and> conn_source conn = s} = {''b'', ''c''}"
proof -
  have w: "workflow spec_graph = Some (the (workflow spec_graph))"
    by (simp add: graph_example_defs)
  have ids: "descriptor_ids (getTargetBlocks ''agent'' (plain_block ''a'') spec_graph)
       = Some [''b'', ''c'']"
    by (simp add: graph_example_defs)
  then obtain ds where
    r: "getTargetBlocks ''agent'' (plain_block ''a'') spec_graph = Inr (Some ds)"
    and m: "map tb_id ds = [''b'', ''c'']"
    by (auto simp: descriptor_ids_def split: sum.splits option.splits)
  from getTargetBlocks_candidates [OF w, of "plain_block ''a''" "''agent''"]
  have "set (map tb_id ds) =
       {t. \<exists>conn \<in> set (connections (the (workflow spec_graph))).
            conn_source conn = block_id (plain_block ''a'') \<and> conn_target conn = t}
     - {s. \<exists>conn \<in> set (connections (the (workflow spec_graph))).
            conn_target conn = block_id (plain_block ''a'') \<and> conn_source conn = s}"
    using r by blast
  then have "{t. \<exists>conn \<in> set (connections (the (workflow spec_graph))).
            conn_source conn = block_id (plain_block ''a'') \<and> conn_target conn = t}
     - {s. \<exists>conn \<in> set (connections (the (workflow spec_graph))).
            conn_target conn = block_id (plain_block ''a'') \<and> conn_source conn = s}
     = set [''b'', ''c'']"
    by (simp only: m)
  then show ?thesis
    using w ids by (simp add: plain_block_def)
qed

text \<open>
  C1 as stated fails: a router with two connections to the same target gets two
  descriptors with the same id.
\<close>

theorem getTargetBlocks_duplicates_counterexample:
  "descriptor_ids (getTargetBlocks ''agent'' (plain_block ''a'') dup_graph) = Some [''b'', ''b'']
   \<and> \<not> distinct [''b'', ''b'']"
  by (simp add: graph_example_defs)

section \<open>Properties of the trigger payload\<close>

lemma project_field_obj:
  "project_field (JSObj kvs) k = Inr (k, record_get kvs k)"
  by (simp add: project_field_def record_get_def)

lemma map_throwing_Inr:
  "\<forall>x \<in> set xs. f x = Inr (g x) \<Longrightarrow> map_throwing f xs = Inr (map g xs)"
  by (induction xs) auto

lemma payload_of_object:
  "map_throwing (project_field (JSObj kvs)) ks = Inr (map (\<lambda>k. (k, record_get kvs k)) ks)"
  by (rule map_throwing_Inr) (simp add: project_field_obj)

text \<open>
  C10. \<^verbatim>\<open>getVyinChatTriggerPayload\<close> never throws: it returns a payload for every execution
  context. The payload is the empty object when the context has no workflow, when no block
  of the workflow has the metadata id \<^verbatim>\<open>vyin_chatbot\<close>, and when the first such block has no
  entry in the block state store; otherwise it is the object of the eleven named fields,
  each read from the stored output of that block.
\<close>

theorem getVyinChatTriggerPayload_total:
  "(\<exists>p. getVyinChatTriggerPayload ctx = Inr p)
   \<and> (workflow ctx = None \<longrightarrow> getVyinChatTriggerPayload ctx = Inr [])
   \<and> (\<forall>wfl. workflow ctx = Some wfl \<longrightarrow>
         (\<forall>b \<in> set (blocks wfl). metadata_id b \<noteq> Some ''vyin_chatbot'') \<longrightarrow>
         getVyinChatTriggerPayload ctx = Inr [])
   \<and> (\<forall>wfl vyin. workflow ctx = Some wfl \<longrightarrow>
         find (\<lambda>b. metadata_id b = Some ''vyin_chatbot'') (blocks wfl) = Some vyin \<longrightarrow>
         blockStates ctx (block_id vyin) = None \<longrightarrow>
         getVyinChatTriggerPayload ctx = Inr [])
   \<and> (\<forall>wfl vyin st. workflow ctx = Some wfl \<longrightarrow>
         find (\<lambda>b. metadata_id b = Some ''vyin_chatbot'') (blocks wfl) = Some vyin \<longrightarrow>
         blockStates ctx (block_id vyin) = Some st \<longrightarrow>
         getVyinChatTriggerPayload ctx =
           Inr (map (\<lambda>k. (k, record_get (bs_output st) k)) payload_fields))
   \<and> length payload_fields = 11 \<and> distinct payload_fields"
proof (intro conjI allI impI)
  show "\<exists>p. getVyinChatTriggerPayload ctx = Inr p"
    by (auto simp: getVyinChatTriggerPayload_def state_output_def payload_of_object Let_def
        split: option.splits)
next
  assume "workflow ctx = None"
  then show "getVyinChatTriggerPayload ctx = Inr []"
    by (simp add: getVyinChatTriggerPayload_def)
next
  fix wfl
  assume "workflow ctx = Some wfl"
    and "\<forall>b \<in> set (blocks wfl). metadata_id b \<noteq> Some ''vyin_chatbot''"
  then have "workflow ctx = Some wfl"
    and "find (\<lambda>b. metadata_id b = Some ''vyin_chatbot'') (blocks wfl) = None"
    by (simp_all add: find_None_iff)
  then show "getVyinChatTriggerPayload ctx = Inr []"
    by (simp add: getVyinChatTriggerPayload_def)
next
  fix wfl vyin
  assume "workflow ctx = Some wfl"
    and "find (\<lambda>b. metadata_id b = Some ''vyin_chatbot'') (blocks wfl) = Some vyin"
    and "blockStates ctx (block_id vyin) = None"
  then show "getVyinChatTriggerPayload ctx = Inr []"
    by (simp add: getVyinChatTriggerPayload_def state_output_def)
next
  fix wfl vyin st
  assume "workflow ctx = Some wfl"
    and "find (\<lambda>b. metadata_id b = Some ''vyin_chatbot'') (blocks wfl) = Some vyin"
    and "blockStates ctx (block_id vyin) = Some st"
  then show "getVyinChatTriggerPayload ctx =
           Inr (map (\<lambda>k. (k, record_get (bs_output st) k)) payload_fields)"
    by (simp add: getVyinChatTriggerPayload_def state_output_def payload_of_object)
next
  show "length payload_fields = 11" by (simp add: payload_fields_def)
  show "distinct payload_fields" by (simp add: payload_fields_def)
qed

text \<open>
  The theorem at the example context: the trigger block \<open>t\<close> is found, its state is
  recorded, and the payload has the eleven fields; at a context without blocks the payload
  is empty.
\<close>

theorem getVyinChatTriggerPayload_total_witness:
  "getVyinChatTriggerPayload (run_ctx []) =
     Inr [(''content'', JSStr ''hello''), (''api_token'', JSStr ''secret''),
          (''sender_id'', JSUndefined), (''app_id'', JSStr ''app1''),
          (''channel_url'', JSUndefined), (''bot_user_id'', JSUndefined),
          (''bot_uid'', JSUndefined), (''bot_nickname'', JSUndefined),
          (''bot_profile_url'', JSUndefined), (''bot_character'', JSUndefined),
          (''bot_metadata'', JSUndefined)]
   \<and> getVyinChatTriggerPayload (ctx_of [] []) = Inr []"
proof -
  have w: "workflow (run_ctx []) = Some (the (workflow (run_ctx [])))"
    by (simp add: run_ctx_def)
  have f: "find (\<lambda>b. metadata_id b = Some ''vyin_chatbot'')
             (blocks (the (workflow (run_ctx [])))) = Some trigger_block"
    by (simp add: run_ctx_def trigger_block_def metadata_id_def)
  have s: "blockStates (run_ctx []) (block_id trigger_block) = Some \<lparr> bs_output = trigger_output \<rparr>"
    by (simp add: run_ctx_def trigger_block_def)
  from getVyinChatTriggerPayload_total [of "run_ctx []"] w f s
  have "getVyinChatTriggerPayload (run_ctx []) =
          Inr (map (\<lambda>k. (k, record_get (bs_output \<lparr> bs_output = trigger_output \<rparr>) k))
                 payload_fields)"
    by blast
  moreover have w0: "workflow (ctx_of [] []) = Some \<lparr> blocks = [], connections = [] \<rparr>"
    by (simp add: ctx_of_def)
  from getVyinChatTriggerPayload_total [of "ctx_of [] []"] w0
  have "getVyinChatTriggerPayload (ctx_of [] []) = Inr []"
    by simp
  ultimately show ?thesis
    by (simp add: payload_fields_def record_get_def trigger_output_def)
qed


section \<open>Properties of the routing decision\<close>

lemma find_Some_holds: "find P xs = Some x \<Longrightarrow> P x \<and> x \<in> set xs"
  by (induction xs) (auto split: if_splits)

lemma describe_target_fields:
  assumes "describe_target agentTag ctx wfl conn = Inr d"
  shows "\<exists>b. find (\<lambda>b. block_id b = tb_id d) (blocks wfl) = Some b
      \<and> tb_id d = block_id b \<and> tb_type d = metadata_id b \<and> tb_title d = metadata_name b"
proof -
  from assms obtain b where f: "find (\<lambda>b. block_id b = conn_target conn) (blocks wfl) = Some b"
    and d: "tb_id d = block_id b" "tb_type d = metadata_id b" "tb_title d = metadata_name b"
    by (auto simp: describe_target_def split: option.splits)
  from find_Some_holds [OF f] have "block_id b = conn_target conn" by simp
  with f d show ?thesis by simp
qed

lemma map_throwing_member:
  "map_throwing f xs = Inr ys \<Longrightarrow> y \<in> set ys \<Longrightarrow> \<exists>x \<in> set xs. f x = Inr y"
  by (induction xs arbitrary: ys) (auto split: sum.splits)

lemma getTargetBlocks_descriptor:
  assumes "getTargetBlocks agentTag block ctx = Inr (Some tbs)" and "cb \<in> set tbs"
  shows "\<exists>wfl b. workflow ctx = Some wfl
           \<and> find (\<lambda>b. block_id b = tb_id cb) (blocks wfl) = Some b
           \<and> tb_id cb = block_id b \<and> tb_type cb = metadata_id b \<and> tb_title cb = metadata_name b"
proof -
  from assms obtain wfl ds where w: "workflow ctx = Some wfl"
    and m: "map_throwing (describe_target agentTag ctx wfl)
              (filter (\<lambda>conn. conn_source conn = block_id block) (connections wfl)) = Inr ds"
    and c: "cb \<in> set ds"
    by (auto simp: getTargetBlocks_def split: option.splits sum.splits)
  from map_throwing_member [OF m c]
  obtain conn where "describe_target agentTag ctx wfl conn = Inr cb"
    by blast
  from describe_target_fields [OF this] w show ?thesis by blast
qed

lemma find_in_set:
  "x \<in> set xs \<Longrightarrow> P x \<Longrightarrow> \<exists>y. find P xs = Some y \<and> y \<in> set xs \<and> P y"
  by (induction xs) auto

lemma execute_gateway:
  assumes "getTargetBlocks (BlockType_AGENT env) block ctx = Inr targetBlocks"
    and "build_request env block inputs ctx targetBlocks = Inr (toolId, params)"
  shows "execute env block inputs ctx =
           select_path block inputs targetBlocks (executeTool env toolId params)"
  using assms by (simp add: execute_def)

text \<open>
  C4 (as the code has it). In every execution of the router in which the gateway call
  succeeds, the text of the response, trimmed and lower-cased, is compared for equality
  with the candidate ids. On a match the output carries the id of the selected block, which
  is that text; its type, or \<^verbatim>\<open>unknown\<close> when the block has no type or an empty one; and its
  title, or \<^verbatim>\<open>Untitled Block\<close> when the block has no title or an empty one.
\<close>

theorem execute_selected_path:
  assumes tbs: "getTargetBlocks (BlockType_AGENT env) block ctx = Inr (Some tbs)"
    and req: "build_request env block inputs ctx (Some tbs) = Inr (toolId, params)"
    and ok: "tr_success (executeTool env toolId params)"
    and hit: "response_text (executeTool env toolId params) \<in> set (map tb_id tbs)"
  shows "\<exists>wfl b out.
           workflow ctx = Some wfl
         \<and> find (\<lambda>b. block_id b = response_text (executeTool env toolId params)) (blocks wfl) = Some b
         \<and> execute env block inputs ctx = Inr out
         \<and> sp_blockId out = block_id b
         \<and> sp_blockId out = response_text (executeTool env toolId params)
         \<and> sp_blockType out =
             (if metadata_id b = None \<or> metadata_id b = Some [] then ''unknown''
              else the (metadata_id b))
         \<and> sp_blockTitle out =
             (if metadata_name b = None \<or> metadata_name b = Some [] then ''Untitled Block''
              else the (metadata_name b))"
proof -
  let ?r = "response_text (executeTool env toolId params)"
  from hit obtain x where x: "x \<in> set tbs" "tb_id x = ?r"
    by auto
  from find_in_set [of x tbs "\<lambda>b. tb_id b = ?r", OF x]
  obtain cb where cb: "find (\<lambda>b. tb_id b = ?r) tbs = Some cb" "cb \<in> set tbs" "tb_id cb = ?r"
    by blast
  from getTargetBlocks_descriptor [OF tbs cb(2)] obtain wfl b where
    b: "workflow ctx = Some wfl" "find (\<lambda>b. block_id b = tb_id cb) (blocks wfl) = Some b"
       "tb_id cb = block_id b" "tb_type cb = metadata_id b" "tb_title cb = metadata_name b"
    by blast
  have "execute env block inputs ctx =
          Inr \<lparr> ro_userInput = js_toString (js_or (record_get inputs ''userInput'') (JSStr [])),
                sp_blockId = tb_id cb,
                sp_blockType = str_or (tb_type cb) ''unknown'',
                sp_blockTitle = str_or (tb_title cb) ''Untitled Block'' \<rparr>"
    by (simp add: execute_gateway [OF tbs req] select_path_def ok cb(1))
  with b cb(3) show ?thesis
    by (auto simp: str_or_def split: option.splits)
qed

text \<open>
  The theorem at the example run: the gateway answers \<^verbatim>\<open>DEF\<close>, the candidates are
  \<open>abc\<close> and \<open>def\<close>, and the output names \<open>def\<close>, its type and its title.
\<close>

theorem execute_selected_path_witness:
  "\<exists>out. execute (answering_env ''DEF'') (plain_block ''a'') run_inputs (run_ctx example_routes)
            = Inr out
        \<and> sp_blockId out = ''def'' \<and> sp_blockType out = ''agent''
        \<and> sp_blockTitle out = ''Billing''"
proof -
  let ?env = "answering_env ''DEF''" and ?ctx = "run_ctx example_routes"
  have h1: "getTargetBlocks (BlockType_AGENT ?env) (plain_block ''a'') ?ctx
              = Inr (Some example_candidates)"
    by code_simp
  have h2: "build_request ?env (plain_block ''a'') run_inputs ?ctx (Some example_candidates)
              = Inr (''vyin_bot_assistant'', example_params)"
    by code_simp
  have h3: "tr_success (executeTool ?env ''vyin_bot_assistant'' example_params)"
    by code_simp
  have r: "response_text (executeTool ?env ''vyin_bot_assistant'' example_params) = ''def''"
    by code_simp
  have h4: "response_text (executeTool ?env ''vyin_bot_assistant'' example_params)
              \<in> set (map tb_id example_candidates)"
    unfolding r by code_simp
  from execute_selected_path [OF h1 h2 h3 h4] obtain wfl b out where
    w: "workflow ?ctx = Some wfl"
    and f: "find (\<lambda>b. block_id b = ''def'') (blocks wfl) = Some b"
    and out: "execute ?env (plain_block ''a'') run_inputs ?ctx = Inr out"
      "sp_blockId out = ''def''"
      "sp_blockType out =
         (if metadata_id b = None \<or> metadata_id b = Some [] then ''unknown''
          else the (metadata_id b))"
      "sp_blockTitle out =
         (if metadata_name b = None \<or> metadata_name b = Some [] then ''Untitled Block''
          else the (metadata_name b))"
    unfolding r by blast
  from w f have "b = titled_block ''def'' ''agent'' ''Billing''"
    by (auto simp: run_ctx_def trigger_block_def plain_block_def titled_block_def)
  then have "metadata_id b = Some ''agent''" and "metadata_name b = Some ''Billing''"
    by (simp_all add: titled_block_def metadata_id_def metadata_name_def)
  with out show ?thesis by simp
qed

text \<open>
  C4 as stated fails: the candidate \<open>abc\<close> has the empty title, the gateway selects it,
  and the output carries the title \<^verbatim>\<open>Untitled Block\<close>, which is not the title of the block.
\<close>

theorem execute_untitled_counterexample:
  "execute (answering_env '' ABC \<newline>'') (plain_block ''a'') run_inputs (run_ctx example_routes)
     = Inr \<lparr> ro_userInput = ''refund please'', sp_blockId = ''abc'', sp_blockType = ''agent'',
             sp_blockTitle = ''Untitled Block'' \<rparr>
   \<and> find (\<lambda>b. block_id b = ''abc'') (blocks (the (workflow (run_ctx example_routes))))
       = Some (titled_block ''abc'' ''agent'' [])
   \<and> metadata_name (titled_block ''abc'' ''agent'' []) = Some []
   \<and> ''Untitled Block'' \<noteq> []"
  by code_simp

text \<open>
  C5. In every execution of the router in which the gateway call succeeds and the
  normalised response is the id of no candidate, the router fails with the invalid routing
  decision error: the gateway is called once, no other path is taken. When the candidate
  list is empty after the exclusion of the predecessors, this is the outcome for every
  response of the gateway, and no execution of the router returns an output.
\<close>

theorem execute_invalid_routing_decision:
  "(\<forall>targetBlocks toolId params.
       getTargetBlocks (BlockType_AGENT env) block ctx = Inr targetBlocks \<longrightarrow>
       build_request env block inputs ctx targetBlocks = Inr (toolId, params) \<longrightarrow>
       tr_success (executeTool env toolId params) \<longrightarrow>
       response_text (executeTool env toolId params)
         \<notin> (case targetBlocks of None \<Rightarrow> {} | Some tbs \<Rightarrow> set (map tb_id tbs)) \<longrightarrow>
       execute env block inputs ctx =
         Inl (InvalidRoutingDecision (response_text (executeTool env toolId params))))
   \<and> (\<forall>toolId params.
       getTargetBlocks (BlockType_AGENT env) block ctx = Inr (Some []) \<longrightarrow>
       build_request env block inputs ctx (Some []) = Inr (toolId, params) \<longrightarrow>
       tr_success (executeTool env toolId params) \<longrightarrow>
       execute env block inputs ctx =
         Inl (InvalidRoutingDecision (response_text (executeTool env toolId params))))
   \<and> (getTargetBlocks (BlockType_AGENT env) block ctx = Inr (Some []) \<longrightarrow>
       (\<forall>out. execute env block inputs ctx \<noteq> Inr out))"
proof (intro conjI allI impI)
  fix targetBlocks toolId params
  assume tbs: "getTargetBlocks (BlockType_AGENT env) block ctx = Inr targetBlocks"
    and req: "build_request env block inputs ctx targetBlocks = Inr (toolId, params)"
    and ok: "tr_success (executeTool env toolId params)"
    and miss: "response_text (executeTool env toolId params)
         \<notin> (case targetBlocks of None \<Rightarrow> {} | Some tbs \<Rightarrow> set (map tb_id tbs))"
  have "(case targetBlocks of None \<Rightarrow> None
         | Some tbs \<Rightarrow> find (\<lambda>b. tb_id b = response_text (executeTool env toolId params)) tbs) = None"
    using miss by (cases targetBlocks) (force simp: find_None_iff)+
  then show "execute env block inputs ctx =
         Inl (InvalidRoutingDecision (response_text (executeTool env toolId params)))"
    by (simp add: execute_gateway [OF tbs req] select_path_def ok)
next
  fix toolId params
  assume tbs: "getTargetBlocks (BlockType_AGENT env) block ctx = Inr (Some [])"
    and req: "build_request env block inputs ctx (Some []) = Inr (toolId, params)"
    and ok: "tr_success (executeTool env toolId params)"
  show "execute env block inputs ctx =
         Inl (InvalidRoutingDecision (response_text (executeTool env toolId params)))"
    by (simp add: execute_gateway [OF tbs req] select_path_def ok)
next
  fix out
  assume tbs: "getTargetBlocks (BlockType_AGENT env) block ctx = Inr (Some [])"
  show "execute env block inputs ctx \<noteq> Inr out"
    by (auto simp: execute_def tbs select_path_def split: sum.splits)
qed

text \<open>
  The theorem at the example run: the answer \<^verbatim>\<open>xyz\<close> is no candidate; and with the
  router wired back to its predecessor only, no candidate is left and the answer \<^verbatim>\<open>t\<close>,
  the id of that predecessor, is refused.
\<close>

theorem execute_invalid_routing_decision_witness:
  "execute (answering_env ''xyz'') (plain_block ''a'') run_inputs (run_ctx example_routes)
     = Inl (JsError ''Invalid routing decision: xyz'')
   \<and> getTargetBlocks ''agent'' (plain_block ''a'') (run_ctx back_routes) = Inr (Some [])
   \<and> execute (answering_env ''t'') (plain_block ''a'') run_inputs (run_ctx back_routes)
     = Inl (JsError ''Invalid routing decision: t'')"
proof -
  let ?e1 = "answering_env ''xyz''" and ?c1 = "run_ctx example_routes"
  let ?e2 = "answering_env ''t''" and ?c2 = "run_ctx back_routes"
  have a1: "getTargetBlocks (BlockType_AGENT ?e1) (plain_block ''a'') ?c1
              = Inr (Some example_candidates)"
    by code_simp
  have a2: "build_request ?e1 (plain_block ''a'') run_inputs ?c1 (Some example_candidates)
              = Inr (''vyin_bot_assistant'', example_params)"
    by code_simp
  have a3: "tr_success (executeTool ?e1 ''vyin_bot_assistant'' example_params)"
    by code_simp
  have r1: "response_text (executeTool ?e1 ''vyin_bot_assistant'' example_params) = ''xyz''"
    by code_simp
  have a4: "response_text (executeTool ?e1 ''vyin_bot_assistant'' example_params)
              \<notin> (case Some example_candidates of None \<Rightarrow> {}
                  | Some tbs \<Rightarrow> set (map tb_id tbs))"
    unfolding r1 by code_simp
  from execute_invalid_routing_decision [of ?e1 "plain_block ''a''" ?c1 run_inputs] a1 a2 a3 a4
  have "execute ?e1 (plain_block ''a'') run_inputs ?c1
          = Inl (InvalidRoutingDecision
                   (response_text (executeTool ?e1 ''vyin_bot_assistant'' example_params)))"
    by blast
  then have first: "execute ?e1 (plain_block ''a'') run_inputs ?c1
          = Inl (JsError ''Invalid routing decision: xyz'')"
    by (simp add: r1 InvalidRoutingDecision_def)
  have b0: "getTargetBlocks ''agent'' (plain_block ''a'') ?c2 = Inr (Some [])"
    by code_simp
  have b1: "getTargetBlocks (BlockType_AGENT ?e2) (plain_block ''a'') ?c2 = Inr (Some [])"
    by code_simp
  have b2: "build_request ?e2 (plain_block ''a'') run_inputs ?c2 (Some [])
              = Inr (''vyin_bot_assistant'', example_params)"
    by code_simp
  have b3: "tr_success (executeTool ?e2 ''vyin_bot_assistant'' example_params)"
    by code_simp
  have r2: "response_text (executeTool ?e2 ''vyin_bot_assistant'' example_params) = ''t''"
    by code_simp
  from execute_invalid_routing_decision [of ?e2 "plain_block ''a''" ?c2 run_inputs] b1 b2 b3
  have "execute ?e2 (plain_block ''a'') run_inputs ?c2
          = Inl (InvalidRoutingDecision
                   (response_text (executeTool ?e2 ''vyin_bot_assistant'' example_params)))"
    by blast
  then have second: "execute ?e2 (plain_block ''a'') run_inputs ?c2
          = Inl (JsError ''Invalid routing decision: t'')"
    by (simp add: r2 InvalidRoutingDecision_def)
  from first b0 second show ?thesis by simp
qed


section \<open>Properties of the deployment version store\<close>

lemma POST_activate_authenticated:
  assumes "authenticated env rq" and "rq_versionNum rq = Finite v"
  shows "POST_activate env rq now db =
     (case transaction (activate_callback (rq_id rq) v now) db of
        (Inl error, db') \<Rightarrow>
          (createErrorResponse
             (if error_message error = [] then ''Failed to activate deployment''
              else error_message error) 500, db')
      | (Inr u, db') \<Rightarrow> (createSuccessResponse (ActivateBody True now), db'))"
  using assms
  by (auto simp: POST_activate_def authenticated_def Let_def split: option.splits)

lemma activate_rows:
  "sql_update (\<lambda>r. dv_workflowId r = wid \<and> dv_version r = v) (\<lambda>r. r \<lparr> dv_isActive := True \<rparr>)
     (sql_update (\<lambda>r. dv_workflowId r = wid \<and> dv_isActive r)
        (\<lambda>r. r \<lparr> dv_isActive := False \<rparr>) rows)
   = map (\<lambda>r. r \<lparr> dv_isActive :=
              (if dv_workflowId r = wid then dv_version r = v else dv_isActive r) \<rparr>) rows"
  by (induction rows) (auto simp: sql_update_def)

lemma returning_empty_iff:
  "sql_returning (\<lambda>r. dv_workflowId r = wid \<and> dv_version r = v) upd
     (sql_update (\<lambda>r. dv_workflowId r = wid \<and> dv_isActive r)
        (\<lambda>r. r \<lparr> dv_isActive := False \<rparr>) rows) = []
   \<longleftrightarrow> (\<forall>r \<in> set rows. \<not> (dv_workflowId r = wid \<and> dv_version r = v))"
  by (induction rows) (auto simp: sql_update_def sql_returning_def)

lemma activate_callback_found:
  assumes "\<exists>r \<in> set (workflowDeploymentVersion db). dv_workflowId r = wid \<and> dv_version r = v"
  shows "activate_callback wid v now db =
     (Inr (),
      \<lparr> workflowDeploymentVersion =
          map (\<lambda>r. r \<lparr> dv_isActive :=
                 (if dv_workflowId r = wid then dv_version r = v else dv_isActive r) \<rparr>)
            (workflowDeploymentVersion db),
        workflowTable =
          map (\<lambda>w. if wf_id w = wid then w \<lparr> wf_isDeployed := True, wf_deployedAt := Some now \<rparr>
                   else w) (workflowTable db) \<rparr>)"
proof -
  have "sql_returning (\<lambda>r. dv_workflowId r = wid \<and> dv_version r = v)
          (\<lambda>r. r \<lparr> dv_isActive := True \<rparr>)
          (sql_update (\<lambda>r. dv_workflowId r = wid \<and> dv_isActive r)
             (\<lambda>r. r \<lparr> dv_isActive := False \<rparr>) (workflowDeploymentVersion db)) \<noteq> []"
    using assms returning_empty_iff [of wid v "\<lambda>r. r \<lparr> dv_isActive := True \<rparr>" "workflowDeploymentVersion db"]
    by simp
  then show ?thesis
    by (simp add: activate_callback_def Let_def activate_rows) (simp add: sql_update_def)
qed

lemma activate_callback_missing:
  assumes "\<forall>r \<in> set (workflowDeploymentVersion db). \<not> (dv_workflowId r = wid \<and> dv_version r = v)"
  shows "fst (activate_callback wid v now db) = Inl (JsError ''Deployment version not found'')"
proof -
  have "sql_returning (\<lambda>r. dv_workflowId r = wid \<and> dv_version r = v)
          (\<lambda>r. r \<lparr> dv_isActive := True \<rparr>)
          (sql_update (\<lambda>r. dv_workflowId r = wid \<and> dv_isActive r)
             (\<lambda>r. r \<lparr> dv_isActive := False \<rparr>) (workflowDeploymentVersion db)) = []"
    using assms returning_empty_iff [of wid v "\<lambda>r. r \<lparr> dv_isActive := True \<rparr>" "workflowDeploymentVersion db"]
    by simp
  then show ?thesis
    by (simp add: activate_callback_def Let_def)
qed

lemma unique_key_once:
  "distinct (map key rows) \<Longrightarrow> \<exists>r \<in> set rows. key r = k \<Longrightarrow>
   length (filter (\<lambda>r. key r = k) rows) = 1"
proof (induction rows)
  case Nil
  then show ?case by simp
next
  case (Cons r rows)
  show ?case
  proof (cases "key r = k")
    case True
    from Cons.prems(1) have "key r \<notin> key ` set rows" by simp
    with True have "\<forall>x \<in> set rows. key x \<noteq> k" by blast
    then have "filter (\<lambda>r. key r = k) rows = []" by (simp add: filter_empty_conv)
    with True show ?thesis by simp
  next
    case False
    with Cons show ?thesis by auto
  qed
qed

lemma other_workflows_active:
  "wid \<noteq> w \<Longrightarrow>
   filter (\<lambda>r. dv_workflowId r = wid \<and> dv_isActive r)
     (map (\<lambda>r. r \<lparr> dv_isActive :=
              (if dv_workflowId r = w then dv_version r = v else dv_isActive r) \<rparr>) rows)
   = filter (\<lambda>r. dv_workflowId r = wid \<and> dv_isActive r) rows"
  by (induction rows) auto

lemma this_workflow_active:
  "filter (\<lambda>r. dv_workflowId r = w \<and> dv_isActive r)
     (map (\<lambda>r. r \<lparr> dv_isActive :=
              (if dv_workflowId r = w then dv_version r = v else dv_isActive r) \<rparr>) rows)
   = map (\<lambda>r. r \<lparr> dv_isActive := True \<rparr>)
       (filter (\<lambda>r. (dv_workflowId r, dv_version r) = (w, v)) rows)"
  by (induction rows) auto

text \<open>
  C2. For every authenticated activation request whose version has a row for the workflow,
  the route answers 200 with the deployment time, and the transaction commits three
  effects together: every row of the workflow is active exactly if its version is the
  requested one (so the previously active row is cleared and the requested row is set),
  rows of other workflows and all other columns are unchanged, and the workflow's row is
  marked deployed at that time. Afterwards every active row of the workflow has the
  requested version; the active rows of every other workflow are as before; and with one
  row per workflow and version, exactly one row of the workflow is active, so that at most
  one row per workflow is active if that held for the other workflows before.
\<close>

theorem POST_activate_success:
  assumes au: "authenticated env rq" and ver: "rq_versionNum rq = Finite v"
    and ex: "\<exists>r \<in> set (workflowDeploymentVersion db). dv_workflowId r = rq_id rq \<and> dv_version r = v"
  shows "\<exists>db'. POST_activate env rq now db = (createSuccessResponse (ActivateBody True now), db')
     \<and> workflowDeploymentVersion db' =
          map (\<lambda>r. r \<lparr> dv_isActive :=
                 (if dv_workflowId r = rq_id rq then dv_version r = v else dv_isActive r) \<rparr>)
            (workflowDeploymentVersion db)
     \<and> workflowTable db' =
          map (\<lambda>w. if wf_id w = rq_id rq
                   then w \<lparr> wf_isDeployed := True, wf_deployedAt := Some now \<rparr> else w)
            (workflowTable db)
     \<and> (\<forall>r \<in> set (active_rows db' (rq_id rq)). dv_version r = v)
     \<and> (\<forall>wid. wid \<noteq> rq_id rq \<longrightarrow> active_rows db' wid = active_rows db wid)
     \<and> (distinct (map (\<lambda>r. (dv_workflowId r, dv_version r)) (workflowDeploymentVersion db))
          \<longrightarrow> length (active_rows db' (rq_id rq)) = 1)
     \<and> (distinct (map (\<lambda>r. (dv_workflowId r, dv_version r)) (workflowDeploymentVersion db))
          \<longrightarrow> (\<forall>wid. wid \<noteq> rq_id rq \<longrightarrow> length (active_rows db wid) \<le> 1)
          \<longrightarrow> (\<forall>wid. length (active_rows db' wid) \<le> 1))"
proof -
  let ?wid = "rq_id rq"
  let ?rows = "map (\<lambda>r. r \<lparr> dv_isActive :=
                 (if dv_workflowId r = ?wid then dv_version r = v else dv_isActive r) \<rparr>)
            (workflowDeploymentVersion db)"
  let ?db' = "\<lparr> workflowDeploymentVersion = ?rows,
        workflowTable =
          map (\<lambda>w. if wf_id w = ?wid then w \<lparr> wf_isDeployed := True, wf_deployedAt := Some now \<rparr>
                   else w) (workflowTable db) \<rparr>"
  have post: "POST_activate env rq now db = (createSuccessResponse (ActivateBody True now), ?db')"
    by (simp add: POST_activate_authenticated [OF au ver] transaction_def
        activate_callback_found [OF ex])
  have act: "active_rows ?db' ?wid =
      map (\<lambda>r. r \<lparr> dv_isActive := True \<rparr>)
        (filter (\<lambda>r. (dv_workflowId r, dv_version r) = (?wid, v)) (workflowDeploymentVersion db))"
    by (simp add: active_rows_def this_workflow_active)
  have versions: "\<forall>r \<in> set (active_rows ?db' ?wid). dv_version r = v"
    unfolding act by auto
  have others: "\<forall>wid. wid \<noteq> ?wid \<longrightarrow> active_rows ?db' wid = active_rows db wid"
  proof (intro allI impI)
    fix wid assume "wid \<noteq> ?wid"
    then have "filter (\<lambda>r. dv_workflowId r = wid \<and> dv_isActive r) ?rows
             = filter (\<lambda>r. dv_workflowId r = wid \<and> dv_isActive r) (workflowDeploymentVersion db)"
      by (rule other_workflows_active)
    then show "active_rows ?db' wid = active_rows db wid"
      by (simp add: active_rows_def)
  qed
  have single: "distinct (map (\<lambda>r. (dv_workflowId r, dv_version r)) (workflowDeploymentVersion db))
          \<longrightarrow> length (active_rows ?db' ?wid) = 1"
  proof
    assume d: "distinct (map (\<lambda>r. (dv_workflowId r, dv_version r)) (workflowDeploymentVersion db))"
    from ex have "\<exists>r \<in> set (workflowDeploymentVersion db).
        (dv_workflowId r, dv_version r) = (?wid, v)" by auto
    from unique_key_once [OF d this] show "length (active_rows ?db' ?wid) = 1"
      unfolding act by simp
  qed
  have inv: "distinct (map (\<lambda>r. (dv_workflowId r, dv_version r)) (workflowDeploymentVersion db))
          \<longrightarrow> (\<forall>wid. wid \<noteq> ?wid \<longrightarrow> length (active_rows db wid) \<le> 1)
          \<longrightarrow> (\<forall>wid. length (active_rows ?db' wid) \<le> 1)"
  proof (intro impI allI)
    fix wid
    assume d: "distinct (map (\<lambda>r. (dv_workflowId r, dv_version r)) (workflowDeploymentVersion db))"
      and before: "\<forall>wid. wid \<noteq> ?wid \<longrightarrow> length (active_rows db wid) \<le> 1"
    show "length (active_rows ?db' wid) \<le> 1"
    proof (cases "wid = ?wid")
      case True
      with single d show ?thesis by simp
    next
      case False
      with others before show ?thesis by simp
    qed
  qed
  from post versions others single inv show ?thesis
    by (intro exI [of _ ?db']) simp
qed

text \<open>
  C3. For every authenticated activation request whose version has no row for the
  workflow, the transaction fails with the error of the missing version and the database
  after the request is the database before it: the rows that were active are active, and
  the workflow's deployed flag and time are what they were. The route does not answer 200.
\<close>

theorem POST_activate_missing_version:
  assumes au: "authenticated env rq" and ver: "rq_versionNum rq = Finite v"
    and none: "\<forall>r \<in> set (workflowDeploymentVersion db).
                 \<not> (dv_workflowId r = rq_id rq \<and> dv_version r = v)"
  shows "transaction (activate_callback (rq_id rq) v now) db
           = (Inl (JsError ''Deployment version not found''), db)
       \<and> snd (POST_activate env rq now db) = db
       \<and> status (fst (POST_activate env rq now db)) \<noteq> 200"
proof -
  obtain db1 where cb: "activate_callback (rq_id rq) v now db
      = (Inl (JsError ''Deployment version not found''), db1)"
    using activate_callback_missing [OF none, of now]
    by (cases "activate_callback (rq_id rq) v now db") auto
  then have tx: "transaction (activate_callback (rq_id rq) v now) db
           = (Inl (JsError ''Deployment version not found''), db)"
    by (simp add: transaction_def)
  then show ?thesis
    by (simp add: POST_activate_authenticated [OF au ver] createErrorResponse_def)
qed

text \<open>
  The roll-back is what keeps the active version: at the throw, the callback has already
  cleared every active row of the workflow.
\<close>

lemma activate_callback_clears:
  assumes "\<forall>r \<in> set (workflowDeploymentVersion db). \<not> (dv_workflowId r = wid \<and> dv_version r = v)"
  shows "active_rows (snd (activate_callback wid v now db)) wid = []"
proof -
  have "sql_returning (\<lambda>r. dv_workflowId r = wid \<and> dv_version r = v)
          (\<lambda>r. r \<lparr> dv_isActive := True \<rparr>)
          (sql_update (\<lambda>r. dv_workflowId r = wid \<and> dv_isActive r)
             (\<lambda>r. r \<lparr> dv_isActive := False \<rparr>) (workflowDeploymentVersion db)) = []"
    using assms returning_empty_iff [of wid v "\<lambda>r. r \<lparr> dv_isActive := True \<rparr>" "workflowDeploymentVersion db"]
    by simp
  then have "workflowDeploymentVersion (snd (activate_callback wid v now db)) =
      map (\<lambda>r. r \<lparr> dv_isActive :=
              (if dv_workflowId r = wid then dv_version r = v else dv_isActive r) \<rparr>)
        (workflowDeploymentVersion db)"
    by (simp add: activate_callback_def Let_def activate_rows)
  then show ?thesis
    using assms by (simp add: active_rows_def this_workflow_active filter_empty_conv)
qed

text \<open>
  The theorem at the example database: activating version 5 of \<open>W\<close>, whose version 3 is
  active.
\<close>

theorem POST_activate_success_witness:
  "fst (POST_activate example_env (example_request 5 JSUndefined) 7777 example_db)
     = \<lparr> status = 200, body = ActivateBody True 7777 \<rparr>
   \<and> map (\<lambda>r. (dv_workflowId r, dv_version r, dv_isActive r))
       (workflowDeploymentVersion
          (snd (POST_activate example_env (example_request 5 JSUndefined) 7777 example_db)))
     = [(''W'', 3, False), (''W'', 5, True), (''V'', 1, True)]
   \<and> workflowTable (snd (POST_activate example_env (example_request 5 JSUndefined) 7777 example_db))
     = [\<lparr> wf_id = ''W'', wf_isDeployed = True, wf_deployedAt = Some 7777 \<rparr>,
        \<lparr> wf_id = ''V'', wf_isDeployed = True, wf_deployedAt = Some 2000 \<rparr>]
   \<and> length (active_rows
        (snd (POST_activate example_env (example_request 5 JSUndefined) 7777 example_db)) ''W'') = 1"
proof -
  let ?rq = "example_request 5 JSUndefined"
  have h1: "authenticated example_env ?rq"
    by (simp add: authenticated_def example_env_def example_request_def)
  have h2: "rq_versionNum ?rq = Finite 5"
    by (simp add: example_request_def)
  have h3: "\<exists>r \<in> set (workflowDeploymentVersion example_db).
              dv_workflowId r = rq_id ?rq \<and> dv_version r = 5"
    by (simp add: example_db_def example_request_def version_row_def)
  have d: "distinct (map (\<lambda>r. (dv_workflowId r, dv_version r))
             (workflowDeploymentVersion example_db))"
    by (simp add: example_db_def version_row_def)
  have w: "rq_id ?rq = ''W''"
    by (simp add: example_request_def)
  from POST_activate_success [OF h1 h2 h3, of 7777] d obtain db' where
    p: "POST_activate example_env ?rq 7777 example_db
          = (createSuccessResponse (ActivateBody True 7777), db')"
    and rows: "workflowDeploymentVersion db' =
          map (\<lambda>r. r \<lparr> dv_isActive :=
                 (if dv_workflowId r = rq_id ?rq then dv_version r = 5 else dv_isActive r) \<rparr>)
            (workflowDeploymentVersion example_db)"
    and tab: "workflowTable db' =
          map (\<lambda>w. if wf_id w = rq_id ?rq
                   then w \<lparr> wf_isDeployed := True, wf_deployedAt := Some 7777 \<rparr> else w)
            (workflowTable example_db)"
    and one: "length (active_rows db' (rq_id ?rq)) = 1"
    by blast
  from p rows tab one show ?thesis
    by (simp add: w createSuccessResponse_def example_db_def version_row_def)
qed

text \<open>
  The theorem at the example database: activating version 99 of \<open>W\<close>, which has no row.
\<close>

theorem POST_activate_missing_version_witness:
  "snd (POST_activate example_env (example_request 99 JSUndefined) 7777 example_db) = example_db
   \<and> map dv_version (active_rows example_db ''W'') = [3]
   \<and> status (fst (POST_activate example_env (example_request 99 JSUndefined) 7777 example_db))
       \<noteq> 200"
proof -
  let ?rq = "example_request 99 JSUndefined"
  have h1: "authenticated example_env ?rq"
    by (simp add: authenticated_def example_env_def example_request_def)
  have h2: "rq_versionNum ?rq = Finite 99"
    by (simp add: example_request_def)
  have h3: "\<forall>r \<in> set (workflowDeploymentVersion example_db).
              \<not> (dv_workflowId r = rq_id ?rq \<and> dv_version r = 99)"
    by (simp add: example_db_def example_request_def version_row_def)
  have "map dv_version (active_rows example_db ''W'') = [3]"
    by (simp add: active_rows_def example_db_def version_row_def)
  with POST_activate_missing_version [OF h1 h2 h3, of 7777] show ?thesis
    by simp
qed

text \<open>
  The answer to an authenticated activation request whose version has no row is always
  the error response with status 500.
\<close>

lemma POST_activate_missing_answer:
  assumes "authenticated env rq" and "rq_versionNum rq = Finite v"
    and "\<forall>r \<in> set (workflowDeploymentVersion db).
           \<not> (dv_workflowId r = rq_id rq \<and> dv_version r = v)"
  shows "fst (POST_activate env rq now db)
           = createErrorResponse ''Deployment version not found'' 500"
proof -
  obtain db1 where "activate_callback (rq_id rq) v now db
      = (Inl (JsError ''Deployment version not found''), db1)"
    using activate_callback_missing [OF assms(3), of now]
    by (cases "activate_callback (rq_id rq) v now db") auto
  then show ?thesis
    by (simp add: POST_activate_authenticated [OF assms(1,2)] transaction_def)
qed

text \<open>
  C7. The deployment HTTP surface lists status 404 for an activation whose version does
  not exist. At the example database, an authenticated request to activate version 99 of
  \<open>W\<close>, which has no row, is answered with status 500: the error thrown in the
  transaction reaches the handler's \<^verbatim>\<open>catch\<close>, which answers every error with 500.
\<close>

theorem activate_unknown_version_answers_500:
  "filter (\<lambda>r. dv_workflowId r = ''W'' \<and> dv_version r = 99)
     (workflowDeploymentVersion example_db) = []
   \<and> authenticated example_env (example_request 99 JSUndefined)
   \<and> POST_activate example_env (example_request 99 JSUndefined) 7777 example_db
     = (\<lparr> status = 500, body = ErrorBody ''Deployment version not found'' \<rparr>, example_db)"
  by code_simp

text \<open>The status and the body of that answer, and the database it leaves.\<close>

theorem activate_unknown_version_answers_500_witness:
  "status (fst (POST_activate example_env (example_request 99 JSUndefined) 7777 example_db)) = 500
   \<and> body (fst (POST_activate example_env (example_request 99 JSUndefined) 7777 example_db))
       = ErrorBody ''Deployment version not found''
   \<and> snd (POST_activate example_env (example_request 99 JSUndefined) 7777 example_db) = example_db"
  using activate_unknown_version_answers_500 by simp








section \<open>Properties of the one-time codes\<close>

lemma run_op_backend:
  "(redisClient (run_op codec op st) = None) = (redisClient st = None)"
  by (cases op)
     (auto simp: storeCode_def consumeCode_def redis_set_ex_def Let_def
           split: option.splits sum.splits if_splits)

lemma run_op_other:
  "op_code op \<noteq> code \<Longrightarrow> code_entry (run_op codec op st) code = code_entry st code"
  by (cases op)
     (auto simp: code_entry_def storeCode_def consumeCode_def redis_set_ex_def redis_del_def Let_def
           split: option.splits sum.splits if_splits)

lemma run_ops_other:
  "\<forall>op \<in> set ops. op_code op \<noteq> code \<Longrightarrow> code_entry (run_ops codec ops st) code = code_entry st code"
  by (induction ops arbitrary: st) (simp_all add: run_op_other)

lemma run_op_absent:
  "code_entry st code = None \<Longrightarrow> \<not> stores op code \<Longrightarrow> code_entry (run_op codec op st) code = None"
  by (cases op)
     (auto simp: code_entry_def storeCode_def consumeCode_def redis_set_ex_def redis_del_def Let_def
           split: option.splits sum.splits if_splits)

lemma run_ops_absent:
  "code_entry st code = None \<Longrightarrow> \<forall>op \<in> set ops. \<not> stores op code \<Longrightarrow>
   code_entry (run_ops codec ops st) code = None"
  by (induction ops arbitrary: st) (simp_all add: run_op_absent)

lemma consumeCode_absent:
  "code_entry st code = None \<Longrightarrow> consumeCode codec code now st = (None, st)"
  by (auto simp: code_entry_def consumeCode_def redis_get_def Let_def split: option.splits)

lemma consumeCode_removes:
  "fst (consumeCode codec code now st) \<noteq> None \<Longrightarrow>
   code_entry (snd (consumeCode codec code now st)) code = None"
  by (auto simp: code_entry_def consumeCode_def redis_get_def redis_del_def Let_def
      split: option.splits if_splits)

lemma consumeCode_present:
  "code_entry st code = Some (val, deadline) \<Longrightarrow> now < deadline \<Longrightarrow> val \<noteq> [] \<Longrightarrow>
   fst (consumeCode codec code now st) = parse codec val
   \<and> code_entry (snd (consumeCode codec code now st)) code = None"
  by (auto simp: code_entry_def consumeCode_def redis_get_def redis_del_def Let_def
      split: option.splits if_splits)

lemma consumeCode_expired:
  "code_entry st code = Some (val, deadline) \<Longrightarrow> deadline < now \<Longrightarrow>
   fst (consumeCode codec code now st) = None"
  by (auto simp: code_entry_def consumeCode_def redis_get_def redis_del_def Let_def
      split: option.splits if_splits)

lemma storeCode_entry:
  "storeCode codec code payload ttlSeconds now st = Inr st' \<Longrightarrow>
   code_entry st' code = Some (stringify codec payload, now + ttlSeconds * 1000)"
  by (auto simp: code_entry_def storeCode_def redis_set_ex_def Let_def
      split: option.splits if_splits)


text \<open>
  C9. Let a code be stored by \<^verbatim>\<open>storeCode\<close>, and let any calls for other codes follow.
  The first \<^verbatim>\<open>consumeCode\<close> for the code, before its time to live has passed, returns what
  \<^verbatim>\<open>JSON.parse\<close> makes of the stored text, which is the stored payload whenever the payload
  survives the way through JSON, and removes the entry. After that, whatever calls follow
  that do not store the code again, \<^verbatim>\<open>consumeCode\<close> for the code returns \<^verbatim>\<open>null\<close>. It also
  returns \<^verbatim>\<open>null\<close> once the time to live has passed, and for every code without entry; it
  has no error result. This holds for the in-memory store and for Redis, with calls in
  sequence.
\<close>

theorem consumeCode_one_shot:
  assumes store: "storeCode codec code payload ttlSeconds t0 st = Inr st1"
    and between: "\<forall>op \<in> set ops1. op_code op \<noteq> code"
    and fresh: "t1 < t0 + ttlSeconds * 1000"
    and nonempty: "stringify codec payload \<noteq> []"
    and later: "\<forall>op \<in> set ops2. \<not> stores op code"
  shows "fst (consumeCode codec code t1 (run_ops codec ops1 st1))
           = parse codec (stringify codec payload)
       \<and> (parse codec (stringify codec payload) = Some payload \<longrightarrow>
            fst (consumeCode codec code t1 (run_ops codec ops1 st1)) = Some payload)
       \<and> code_entry (snd (consumeCode codec code t1 (run_ops codec ops1 st1))) code = None
       \<and> fst (consumeCode codec code t2
              (run_ops codec ops2 (snd (consumeCode codec code t1 (run_ops codec ops1 st1)))))
           = None
       \<and> (t0 + ttlSeconds * 1000 < t3 \<longrightarrow>
            fst (consumeCode codec code t3 (run_ops codec ops1 st1)) = None)
       \<and> (\<forall>s t. code_entry s code = None \<longrightarrow> consumeCode codec code t s = (None, s))"
proof -
  let ?s = "run_ops codec ops1 st1"
  have e: "code_entry ?s code = Some (stringify codec payload, t0 + ttlSeconds * 1000)"
    by (simp add: run_ops_other [OF between] storeCode_entry [OF store])
  note first = consumeCode_present [OF e fresh nonempty, of codec]
  from first have gone: "code_entry (snd (consumeCode codec code t1 ?s)) code = None"
    by simp
  have "code_entry (run_ops codec ops2 (snd (consumeCode codec code t1 ?s))) code = None"
    by (rule run_ops_absent [OF gone later])
  then have again: "fst (consumeCode codec code t2
              (run_ops codec ops2 (snd (consumeCode codec code t1 ?s)))) = None"
    by (simp add: consumeCode_absent)
  have expired: "t0 + ttlSeconds * 1000 < t3 \<longrightarrow> fst (consumeCode codec code t3 ?s) = None"
    using consumeCode_expired [OF e] by blast
  have unknown: "\<forall>s t. code_entry s code = None \<longrightarrow> consumeCode codec code t s = (None, s)"
    by (simp add: consumeCode_absent)
  from first again expired unknown show ?thesis
    by simp
qed

text \<open>
  The theorem at the example session, on the in-memory store and on Redis: the first use
  of \<open>c1\<close> at time 5000 returns the payload, the use at 7000 returns nothing; and a first
  use at time 200000, after the 120 seconds, returns nothing.
\<close>

theorem consumeCode_one_shot_witness:
  "fst (consumeCode text_codec ''c1'' 5000 (run_ops text_codec ops_before (stored_c1 memory_store)))
     = Some ''hello''
   \<and> fst (consumeCode text_codec ''c1'' 7000
        (run_ops text_codec ops_after
           (snd (consumeCode text_codec ''c1'' 5000
              (run_ops text_codec ops_before (stored_c1 memory_store))))))
     = None
   \<and> fst (consumeCode text_codec ''c1'' 5000 (run_ops text_codec ops_before (stored_c1 redis_store)))
     = Some ''hello''
   \<and> fst (consumeCode text_codec ''c1'' 7000
        (run_ops text_codec ops_after
           (snd (consumeCode text_codec ''c1'' 5000
              (run_ops text_codec ops_before (stored_c1 redis_store))))))
     = None
   \<and> fst (consumeCode text_codec ''c1'' 200000
        (run_ops text_codec ops_before (stored_c1 memory_store)))
     = None"
proof -
  have store: "storeCode text_codec ''c1'' ''hello'' CODE_TTL_SECONDS 1000 st = Inr (stored_c1 st)"
    for st
    by (simp add: stored_c1_def storeCode_def redis_set_ex_def CODE_TTL_SECONDS_def Let_def
        split: option.splits)
  have between: "\<forall>op \<in> set ops_before. op_code op \<noteq> ''c1''"
    by (simp add: ops_before_def)
  have fresh: "5000 < 1000 + CODE_TTL_SECONDS * 1000"
    by (simp add: CODE_TTL_SECONDS_def)
  have late: "1000 + CODE_TTL_SECONDS * 1000 < 200000"
    by (simp add: CODE_TTL_SECONDS_def)
  have nonempty: "stringify text_codec ''hello'' \<noteq> []"
    by (simp add: text_codec_def)
  have later: "\<forall>op \<in> set ops_after. \<not> stores op ''c1''"
    by (simp add: ops_after_def)
  have round: "parse text_codec (stringify text_codec ''hello'') = Some ''hello''"
    by (simp add: text_codec_def)
  from consumeCode_one_shot [OF store between fresh nonempty later, of memory_store 7000 200000]
    consumeCode_one_shot [OF store between fresh nonempty later, of redis_store 7000 200000]
    round late
  show ?thesis by simp
qed

section \<open>Properties of the identifier quoting\<close>

lemma strip_prefix_append: "strip_prefix p (p @ s) = Some s"
  by (induction p) auto

lemma space_not_digit: "is_js_space c \<Longrightarrow> \<not> is_js_digit c"
  by (auto simp: is_js_space_def is_js_digit_def Let_def)

text \<open>
  Where the key is followed at once by the colon, then by white space and digits, the
  digits are put between quotes, so that \<^verbatim>\<open>JSON.parse\<close> reads them as a string.
\<close>

lemma match_id_compact:
  assumes ws: "\<forall>c \<in> set ws. is_js_space c"
    and ds: "ds \<noteq> []" "\<forall>c \<in> set ds. is_js_digit c"
    and rest: "rest = [] \<or> \<not> is_js_digit (hd rest)"
  shows "match_id key (quoted key @ '':'' @ ws @ ds @ rest) = Some (ds, rest)"
proof -
  from ds obtain d ds' where d: "ds = d # ds'" by (cases ds) auto
  with ds(2) have "\<not> is_js_space d" using space_not_digit by auto
  with ws d have a: "dropWhile is_js_space (ws @ ds @ rest) = ds @ rest"
    by (simp add: dropWhile_append3)
  from rest ds(2) have t: "takeWhile is_js_digit (ds @ rest) = ds"
    by (cases rest) (auto simp: takeWhile_tail)
  from rest ds(2) have r: "dropWhile is_js_digit (ds @ rest) = rest"
    by (cases rest) (auto simp: dropWhile_append2)
  have "strip_prefix (quoted key @ '':'') (quoted key @ '':'' @ ws @ ds @ rest)
          = Some (ws @ ds @ rest)"
    using strip_prefix_append [of "quoted key @ '':''" "ws @ ds @ rest"] by simp
  with a t r ds(1) show ?thesis
    by (simp add: match_id_def Let_def)
qed

lemma replace_ids_compact:
  assumes ws: "\<forall>c \<in> set ws. is_js_space c"
    and ds: "ds \<noteq> []" "\<forall>c \<in> set ds. is_js_digit c"
    and rest: "rest = [] \<or> \<not> is_js_digit (hd rest)"
  shows "replace_ids key (quoted key @ '':'' @ ws @ ds @ rest)
           = quoted key @ '':'' @ quoted ds @ replace_ids key rest"
proof -
  obtain cs where cs: "quoted key @ '':'' @ ws @ ds @ rest = dq # cs"
    by (simp add: quoted_def)
  from match_id_compact [OF assms, of key] have "match_id key (dq # cs) = Some (ds, rest)"
    by (simp only: cs)
  then have "replace_ids key (dq # cs) = quoted key @ '':'' @ quoted ds @ replace_ids key rest"
    by simp
  then show ?thesis by (simp only: cs)
qed

text \<open>
  C8. The route means to return every \<^verbatim>\<open>bot_id\<close> and \<^verbatim>\<open>license_id\<close> that the response
  gives as an unquoted integer as its exact digit string. The body
  \<^verbatim>\<open>{"results" : [{"bot_id" : 9007199254740993}]}\<close>, with a space before the colon, is left
  as it is by the two replacements: the identifier stays an unquoted number for
  \<^verbatim>\<open>JSON.parse\<close>. The compact body is rewritten as the comment of the route says.
\<close>

theorem fixResponseText_spaced:
  "fixResponseText spaced_body = spaced_body
   \<and> spaced_body =
       ''{'' @ quoted ''results'' @ '' : [{'' @ quoted ''bot_id'' @ '' : 9007199254740993}]}''
   \<and> fixResponseText compact_body =
       ''{'' @ quoted ''results'' @ '':[{'' @ quoted ''bot_id'' @ '':'' @ quoted ''9007199254740993''
         @ '','' @ quoted ''license_id'' @ '':'' @ quoted ''12'' @ ''}]}''"
  by code_simp

text \<open>The rewritten text of the spaced body still has the digits right after the colon and a space.\<close>

theorem fixResponseText_spaced_witness:
  "fixResponseText spaced_body =
     ''{'' @ quoted ''results'' @ '' : [{'' @ quoted ''bot_id'' @ '' : 9007199254740993}]}''"
  using fixResponseText_spaced by simp

end
